theory Spec2Isabelle
  imports Complex_Main "HOL-Library.Word" "HOL-Library.Multiset"
begin

section \<open>JavaScript values used by the page\<close>

text \<open>
  A JavaScript string is a sequence of UTF-16 code units. Literals of the source that are
  plain ASCII are written with \<open>js\<close>; the horizontal ellipsis of the source's status
  texts is the code unit U+2026.
\<close>

type_synonym jsstring = "16 word list"

definition js :: "string \<Rightarrow> jsstring" where
  "js s = map of_char s"

definition ellipsis :: "16 word" where
  "ellipsis = 0x2026"

text \<open>
  \<open>String.prototype.trim\<close> removes leading and trailing WhiteSpace and LineTerminator
  code points (ECMAScript): TAB, LF, VT, FF, CR, SP, NBSP, the other space separators
  U+1680, U+2000..U+200A, U+202F, U+205F, U+3000, the separators U+2028, U+2029 and
  the byte order mark U+FEFF.
\<close>

definition isWhiteSpace :: "16 word \<Rightarrow> bool" where
  "isWhiteSpace c \<longleftrightarrow>
     c \<in> set [0x9, 0xA, 0xB, 0xC, 0xD, 0x20, 0xA0, 0x1680, 0x2028, 0x2029,
               0x202F, 0x205F, 0x3000, 0xFEFF]
     \<or> (0x2000 \<le> c \<and> c \<le> 0x200A)"

definition trim :: "jsstring \<Rightarrow> jsstring" where
  "trim s = rev (dropWhile isWhiteSpace (rev (dropWhile isWhiteSpace s)))"

text \<open>
  A value caught by \<open>catch (error)\<close>: either an instance of \<open>Error\<close>, which has a
  \<open>message\<close>, or any other value. \<open>messageOr\<close> is the source's recurring
  \<open>error instanceof Error ? error.message : fallback\<close>.
\<close>

datatype thrown = ErrorInstance jsstring | NotAnError

fun messageOr :: "thrown \<Rightarrow> jsstring \<Rightarrow> jsstring" where
  "messageOr (ErrorInstance message) fallback = message"
| "messageOr NotAnError fallback = fallback"

text \<open>The mic level is a JavaScript number: an integer after \<open>Math.round\<close>, or NaN.\<close>

datatype number = Num int | NaN

definition Math_round :: "rat \<Rightarrow> int" where
  "Math_round q = \<lfloor>q + 1 / 2\<rfloor>"

section \<open>Data model\<close>

datatype CallStatus = Initializing | Ready | Calling | In_call | Incoming | Error

record MediaStream =
  stream_id :: nat
  tracks :: "nat list"

record MediaConnection =
  conn_id :: nat
  peer :: jsstring

record AnalyserNode =
  node_id :: nat
  fftSize :: nat

definition frequencyBinCount :: "AnalyserNode \<Rightarrow> nat" where
  "frequencyBinCount analyser = fftSize analyser div 2"

datatype Peer = Peer (agentId: jsstring)

text \<open>
  Every call the page makes on a collaborator (the transport's connection and call
  objects, the browser's media and frame scheduling) is recorded, in the order of
  execution, as an effect; so is every status update.
\<close>

datatype effect =
    Close nat
  | OnStream nat
  | OnClose nat
  | OnError nat
  | Answer nat MediaStream
  | Call jsstring MediaStream
  | Reconnect
  | Destroy
  | GetUserMedia
  | StopTrack nat
  | CloseContext nat
  | Disconnect nat
  | RequestAnimationFrame nat
  | CancelAnimationFrame nat
  | UpdateStatus CallStatus jsstring

text \<open>
  An \<open>await ensureLocalStream()\<close> that has to ask for the microphone suspends the
  function; what remains to be run is the rest of \<open>placeCall\<close> (with the \<open>remoteId\<close>
  its closure captured) or the rest of the \<open>call\<close> handler (with the inbound call).
\<close>

datatype continuation = PlaceCallK jsstring | AnswerK MediaConnection

text \<open>
  The component's state: the React state variables, the refs, and the part of the
  environment the code acts on. An audio element ref is \<open>None\<close> while the element is
  not mounted and \<open>Some src\<close> with its \<open>srcObject\<close> otherwise. \<open>frameCallbacks\<close> is the
  browser's list of scheduled animation frame callbacks (handle and the analyser the
  \<open>tick\<close> closure reads), \<open>callListeners\<close> the call objects on which the handlers of
  \<open>registerCallHandlers\<close> were registered, \<open>awaiting\<close> the suspended functions,
  \<open>frequencyData\<close> the spectrum the analyser currently reports, \<open>audioContextCtor\<close>
  whether the browser has \<open>AudioContext\<close> or \<open>webkitAudioContext\<close>, \<open>allocated\<close>
  counts the objects created so far to give a new identity to each, and \<open>openCalls\<close>
  holds the calls of the transport whose \<open>open\<close> flag is set.
\<close>

record state =
  localId :: jsstring
  remoteId :: jsstring
  status :: CallStatus
  statusMessage :: jsstring
  micLevel :: number
  remoteAudioRef :: "MediaStream option option"
  localAudioRef :: "MediaStream option option"
  peerRef :: "Peer option"
  callRef :: "MediaConnection option"
  localStreamRef :: "MediaStream option"
  analyserRef :: "AnalyserNode option"
  audioContextRef :: "nat option"
  animationFrameRef :: "nat option"
  isMounted :: bool
  trace :: "effect list"
  frameCallbacks :: "(nat \<times> AnalyserNode) list"
  rafCounter :: nat
  callListeners :: "MediaConnection list"
  peerListening :: bool
  awaiting :: "continuation multiset"
  frequencyData :: "8 word list"
  audioContextCtor :: bool
  allocated :: nat
  openCalls :: "nat set"

definition init :: "bool \<Rightarrow> state" where
  "init ctor =
     \<lparr> localId = [], remoteId = [], status = Initializing,
       statusMessage = js ''Loading agent'' @ [ellipsis], micLevel = Num 0,
       remoteAudioRef = Some None, localAudioRef = Some None,
       peerRef = None, callRef = None, localStreamRef = None, analyserRef = None,
       audioContextRef = None, animationFrameRef = None, isMounted = True,
       trace = [], frameCallbacks = [], rafCounter = 0, callListeners = [],
       peerListening = False, awaiting = {#}, frequencyData = [],
       audioContextCtor = ctor, allocated = 0, openCalls = {} \<rparr>"

section \<open>The environment's primitives\<close>

definition emit :: "effect list \<Rightarrow> state \<Rightarrow> state" where
  "emit es s = s\<lparr>trace := trace s @ es\<rparr>"

text \<open>
  \<open>requestAnimationFrame\<close> adds the callback to the browser's list and returns its
  handle, the incremented counter of the document, which is never 0.
  \<open>cancelAnimationFrame\<close> removes the callback with that handle.
\<close>

definition requestAnimationFrame :: "AnalyserNode \<Rightarrow> state \<Rightarrow> nat \<times> state" where
  "requestAnimationFrame analyser s =
     (let handle = Suc (rafCounter s)
      in (handle, emit [RequestAnimationFrame handle]
                    (s\<lparr>rafCounter := handle,
                       frameCallbacks := frameCallbacks s @ [(handle, analyser)]\<rparr>)))"

definition cancelAnimationFrame :: "nat \<Rightarrow> state \<Rightarrow> state" where
  "cancelAnimationFrame handle s =
     emit [CancelAnimationFrame handle]
       (s\<lparr>frameCallbacks := filter (\<lambda>cb. fst cb \<noteq> handle) (frameCallbacks s)\<rparr>)"

text \<open>
  \<open>getByteFrequencyData\<close> fills the array, which has \<open>frequencyBinCount\<close> elements and
  starts as zeros, with the analyser's current spectrum.
\<close>

definition getByteFrequencyData :: "AnalyserNode \<Rightarrow> state \<Rightarrow> 8 word list" where
  "getByteFrequencyData analyser s =
     (let n = frequencyBinCount analyser
      in take n (frequencyData s) @ replicate (n - length (frequencyData s)) 0)"

text \<open>
  The transport is the \<open>peerjs\<close> module that the page imports; of its call objects
  (\<open>MediaConnection\<close>) the \<open>open\<close> flag matters to the page. A call is open once it
  has been answered: an inbound call from the moment the page answers it, an outbound call
  from the moment the answer of the remote side arrives. \<open>answer\<close> hands the stream
  to the call and opens it.
\<close>

definition answer :: "MediaConnection \<Rightarrow> MediaStream \<Rightarrow> state \<Rightarrow> state" where
  "answer call stream s =
     emit [Answer (conn_id call) stream] (s\<lparr>openCalls := insert (conn_id call) (openCalls s)\<rparr>)"

text \<open>The handlers registered on a call object, in the order of their registration.\<close>

definition listenersOf :: "nat \<Rightarrow> state \<Rightarrow> MediaConnection list" where
  "listenersOf h s = filter (\<lambda>call. conn_id call = h) (callListeners s)"

section \<open>The component's functions\<close>

definition updateStatus :: "CallStatus \<Rightarrow> jsstring \<Rightarrow> state \<Rightarrow> state" where
  "updateStatus nextStatus message s =
     emit [UpdateStatus nextStatus message]
       (s\<lparr>status := nextStatus, statusMessage := message\<rparr>)"

text \<open>
  \<open>callRef.current?.close()\<close>. On a call that is not open, \<open>close\<close> emits no event:
  that is \<open>closeQuietly\<close>. On an open call it clears the flag and emits \<open>close\<close>
  before it returns, so the close handlers registered on the call run inside the caller,
  while \<open>callRef\<close> still holds the call. The page's close handler is
  \<open>updateStatus("ready", "Call ended.")\<close> followed by \<open>destroyCall()\<close>, and
  \<open>destroyCall\<close> starts with \<open>callRef.current?.close()\<close>: the two functions call
  each other. The recursion is one level deep, since the handler finds in \<open>callRef\<close>
  the call whose flag has just been cleared, or nothing. The definitions follow the
  levels: \<open>destroyCallWith close\<close> is the body of \<open>destroyCall\<close> with the closing of
  the held call as a parameter, the handlers that \<open>closeCurrentCall\<close> runs close
  quietly, and \<open>destroyCall\<close> closes with \<open>closeCurrentCall\<close>. The lemma
  \<open>closeCurrentCall_reenters\<close> below shows that \<open>closeCurrentCall\<close> satisfies the
  recursive equation of the source, with \<open>onCallClose\<close> itself as the handler.
\<close>

definition closeQuietly :: "state \<Rightarrow> state" where
  "closeQuietly s =
     (case callRef s of Some call \<Rightarrow> emit [Close (conn_id call)] s | None \<Rightarrow> s)"

text \<open>The guarded \<open>cancelAnimationFrame\<close> of \<open>destroyCall\<close> and \<open>observeMicLevel\<close>:
  a handle is truthy unless it is 0.\<close>

definition cancelPendingFrame :: "state \<Rightarrow> state" where
  "cancelPendingFrame s =
     (case animationFrameRef s of
        Some handle \<Rightarrow>
          if handle \<noteq> 0 then (cancelAnimationFrame handle s)\<lparr>animationFrameRef := None\<rparr>
          else s
      | None \<Rightarrow> s)"

definition destroyCallWith :: "(state \<Rightarrow> state) \<Rightarrow> state \<Rightarrow> state" where
  "destroyCallWith close s0 =
     (let s1 = (close s0)\<lparr>callRef := None\<rparr>;
          s2 = (case remoteAudioRef s1 of
                  Some src \<Rightarrow> s1\<lparr>remoteAudioRef := Some None\<rparr>
                | None \<Rightarrow> s1);
          s3 = (case localStreamRef s2 of
                  Some stream \<Rightarrow> (emit (map StopTrack (tracks stream)) s2)\<lparr>localStreamRef := None\<rparr>
                | None \<Rightarrow> s2);
          s4 = (case audioContextRef s3 of
                  Some context \<Rightarrow> (emit [CloseContext context] s3)\<lparr>audioContextRef := None\<rparr>
                | None \<Rightarrow> s3);
          s5 = (case analyserRef s4 of
                  Some analyser \<Rightarrow> (emit [Disconnect (node_id analyser)] s4)\<lparr>analyserRef := None\<rparr>
                | None \<Rightarrow> s4);
          s6 = cancelPendingFrame s5
      in s6\<lparr>micLevel := Num 0\<rparr>)"

definition closeCurrentCall :: "state \<Rightarrow> state" where
  "closeCurrentCall s =
     (case callRef s of
        None \<Rightarrow> s
      | Some call \<Rightarrow>
          (let s1 = emit [Close (conn_id call)] s
           in if conn_id call \<in> openCalls s1
              then fold (\<lambda>listener s2.
                           destroyCallWith closeQuietly (updateStatus Ready (js ''Call ended.'') s2))
                     (listenersOf (conn_id call) s1)
                     (s1\<lparr>openCalls := openCalls s1 - {conn_id call}\<rparr>)
              else s1))"

definition destroyCall :: "state \<Rightarrow> state" where
  "destroyCall = destroyCallWith closeCurrentCall"

text \<open>
  \<open>ensureLocalStream\<close> after \<open>getUserMedia\<close> has resolved with \<open>stream\<close>: the body of
  the \<open>try\<close> block, which throws when there is no audio context constructor.
\<close>

definition ensureLocalStream_acquired :: "MediaStream \<Rightarrow> state \<Rightarrow> (thrown + MediaStream) \<times> state" where
  "ensureLocalStream_acquired stream s0 =
     (let s1 = s0\<lparr>localStreamRef := Some stream\<rparr>;
          s2 = (case localAudioRef s1 of
                  Some src \<Rightarrow> s1\<lparr>localAudioRef := Some (Some stream)\<rparr>
                | None \<Rightarrow> s1)
      in if audioContextRef s2 = None \<and> \<not> audioContextCtor s2
         then (Inl (ErrorInstance (js ''AudioContext is not supported in this browser.'')), s2)
         else
           (let s3 = (if audioContextRef s2 = None
                      then s2\<lparr>audioContextRef := Some (allocated s2),
                              allocated := Suc (allocated s2)\<rparr>
                      else s2)
            in case audioContextRef s3 of
                 None \<Rightarrow> (Inl (ErrorInstance (js ''Failed to initialize audio context.'')), s3)
               | Some context \<Rightarrow>
                   (let analyser = \<lparr>node_id = allocated s3, fftSize = 256\<rparr>
                    in (Inr stream,
                        s3\<lparr>analyserRef := Some analyser, allocated := Suc (allocated s3)\<rparr>))))"

text \<open>
  \<open>ensureLocalStream\<close> from the point where the promise of \<open>getUserMedia\<close> settles,
  with the \<open>catch\<close> block that reports the failure and throws it again.
\<close>

definition ensureLocalStream_settled :: "thrown + MediaStream \<Rightarrow> state \<Rightarrow> (thrown + MediaStream) \<times> state" where
  "ensureLocalStream_settled gum s =
     (case (case gum of
              Inl error \<Rightarrow> (Inl error, s)
            | Inr stream \<Rightarrow> ensureLocalStream_acquired stream s) of
        (Inl error, s') \<Rightarrow>
          (Inl error, updateStatus Error (messageOr error (js ''Microphone access was denied.'')) s')
      | (Inr stream, s') \<Rightarrow> (Inr stream, s'))"

text \<open>The whole function, run without interruption; \<open>gum\<close> is how \<open>getUserMedia\<close> settles.\<close>

definition ensureLocalStream :: "thrown + MediaStream \<Rightarrow> state \<Rightarrow> (thrown + MediaStream) \<times> state" where
  "ensureLocalStream gum s =
     (case localStreamRef s of
        Some stream \<Rightarrow> (Inr stream, s)
      | None \<Rightarrow> ensureLocalStream_settled gum (emit [GetUserMedia] s))"

text \<open>
  The mean of the array as \<open>reduce\<close> and the division compute it. The sum of at most
  \<open>frequencyBinCount\<close> bytes is exact in a double, and so is its division by the 128 bins
  of the analyser, so the rational quotient is the value \<open>Math.round\<close> receives; an empty
  array gives 0/0, which is NaN.
\<close>

definition reduce_sum :: "8 word list \<Rightarrow> nat" where
  "reduce_sum data = foldl (\<lambda>acc v. acc + unat v) 0 data"

definition volume :: "8 word list \<Rightarrow> number" where
  "volume data =
     (if length data = 0 then NaN
      else Num (Math_round (of_nat (reduce_sum data) / of_nat (length data))))"

definition tick :: "AnalyserNode \<Rightarrow> state \<Rightarrow> state" where
  "tick analyser s =
     (let data = getByteFrequencyData analyser s;
          s1 = s\<lparr>micLevel := volume data\<rparr>;
          (handle, s2) = requestAnimationFrame analyser s1
      in s2\<lparr>animationFrameRef := Some handle\<rparr>)"

definition observeMicLevel :: "state \<Rightarrow> state" where
  "observeMicLevel s =
     (case analyserRef s of
        None \<Rightarrow> s
      | Some analyser \<Rightarrow> tick analyser (cancelPendingFrame s))"

definition registerCallHandlers :: "MediaConnection \<Rightarrow> state \<Rightarrow> state" where
  "registerCallHandlers call s =
     (let s1 = (closeCurrentCall s)\<lparr>callRef := Some call\<rparr>
      in emit [OnStream (conn_id call), OnClose (conn_id call), OnError (conn_id call)]
           (s1\<lparr>callListeners := callListeners s1 @ [call]\<rparr>))"

text \<open>The three handlers that \<open>registerCallHandlers\<close> registers on \<open>call\<close>.\<close>

definition onCallStream :: "MediaConnection \<Rightarrow> MediaStream \<Rightarrow> state \<Rightarrow> state" where
  "onCallStream call remoteStream s =
     updateStatus In_call (js ''Connected with '' @ peer call @ js ''.'')
       (case remoteAudioRef s of
          Some src \<Rightarrow> s\<lparr>remoteAudioRef := Some (Some remoteStream)\<rparr>
        | None \<Rightarrow> s)"

definition onCallClose :: "state \<Rightarrow> state" where
  "onCallClose s = destroyCall (updateStatus Ready (js ''Call ended.'') s)"

definition onCallError :: "thrown \<Rightarrow> state \<Rightarrow> state" where
  "onCallError error s =
     destroyCall (updateStatus Error (messageOr error (js ''Call error occurred.'')) s)"

text \<open>The handlers registered on the peer.\<close>

definition onPeerOpen :: "jsstring \<Rightarrow> state \<Rightarrow> state" where
  "onPeerOpen ident s =
     (if \<not> isMounted s then s
      else updateStatus Ready (js ''Share your agent ID or dial a peer to connect.'')
             (s\<lparr>localId := ident\<rparr>))"

definition onPeerCall_continue :: "MediaConnection \<Rightarrow> thrown + MediaStream \<Rightarrow> state \<Rightarrow> state" where
  "onPeerCall_continue incomingCall r s =
     (case r of
        Inr stream \<Rightarrow>
          registerCallHandlers incomingCall (answer incomingCall stream (observeMicLevel s))
      | Inl error \<Rightarrow>
          updateStatus Error (messageOr error (js ''Unable to answer incoming call.'')) s)"

definition onPeerCall :: "thrown + MediaStream \<Rightarrow> MediaConnection \<Rightarrow> state \<Rightarrow> state" where
  "onPeerCall gum incomingCall s =
     (let s1 = updateStatus Incoming
                 (js ''Call incoming from '' @ peer incomingCall @ js ''.'') s
      in case ensureLocalStream gum s1 of
           (r, s2) \<Rightarrow> onPeerCall_continue incomingCall r s2)"

definition onPeerDisconnected :: "state \<Rightarrow> state" where
  "onPeerDisconnected s =
     emit [Reconnect]
       (updateStatus Error (js ''Connection lost. Attempting to reconnect'' @ [ellipsis]) s)"

definition onPeerError :: "thrown \<Rightarrow> state \<Rightarrow> state" where
  "onPeerError error s =
     updateStatus Error (messageOr error (js ''Unexpected peer error.'')) s"

text \<open>
  \<open>placeCall\<close> after its \<open>await\<close>. \<open>peerRef.current.call\<close> returns a new call object
  for the dialled identifier; when the ref has been cleared in the meantime the property
  access throws a TypeError, with a message of the engine's, that the \<open>catch\<close> reports.
\<close>

definition nullCallMessage :: jsstring where
  "nullCallMessage = js ''Cannot read properties of null (reading 'call')''"

definition placeCall_continue :: "jsstring \<Rightarrow> thrown + MediaStream \<Rightarrow> state \<Rightarrow> state" where
  "placeCall_continue rid r s =
     (case r of
        Inr stream \<Rightarrow>
          (let s1 = observeMicLevel s;
               s2 = updateStatus Calling (js ''Calling '' @ rid @ [ellipsis]) s1
           in case peerRef s2 of
                Some p \<Rightarrow>
                  (let call = \<lparr>conn_id = allocated s2, peer = trim rid\<rparr>
                   in registerCallHandlers call
                        (emit [Call (trim rid) stream] (s2\<lparr>allocated := Suc (allocated s2)\<rparr>)))
              | None \<Rightarrow>
                  updateStatus Error
                    (messageOr (ErrorInstance nullCallMessage) (js ''Failed to start call.'')) s2)
      | Inl error \<Rightarrow>
          updateStatus Error (messageOr error (js ''Failed to start call.'')) s)"

definition placeCall :: "thrown + MediaStream \<Rightarrow> state \<Rightarrow> state" where
  "placeCall gum s =
     (if trim (remoteId s) = [] then updateStatus Error (js ''Enter a peer ID before calling.'') s
      else if peerRef s = None then updateStatus Error (js ''Agent not ready yet.'') s
      else case ensureLocalStream gum s of
             (r, s') \<Rightarrow> placeCall_continue (remoteId s) r s')"

definition endCall :: "state \<Rightarrow> state" where
  "endCall s =
     updateStatus Ready (js ''Call ended.'')
       (destroyCall ((closeCurrentCall s)\<lparr>callRef := None\<rparr>))"

text \<open>The cleanup of the effect, run when the component unmounts.\<close>

definition cleanup :: "state \<Rightarrow> state" where
  "cleanup s =
     (let s1 = destroyCall (s\<lparr>isMounted := False\<rparr>);
          s2 = (case peerRef s1 of Some p \<Rightarrow> emit [Destroy] s1 | None \<Rightarrow> s1)
      in s2\<lparr>peerRef := None\<rparr>)"

definition isCallActive :: "state \<Rightarrow> bool" where
  "isCallActive s \<longleftrightarrow> status s = Calling \<or> status s = In_call"

definition isReady :: "state \<Rightarrow> bool" where
  "isReady s \<longleftrightarrow> status s = Ready \<or> status s = Incoming"

section \<open>The page as an event-driven machine\<close>

text \<open>
  Everything runs on one thread: a handler runs to its end or to an \<open>await\<close> that has to
  wait for the browser. The events are the user's actions, the events of the peer and of
  the calls, the settling of a microphone request, an animation frame, a change of the
  sound the analyser sees, the arrival of the transport module (after which the peer
  exists and has its handlers) and the unmounting of the component.

  \<open>CallAnswered\<close> is the arrival of the remote side's answer, which opens an outbound
  call and runs no handler of the page. \<open>CallClose\<close> is a \<open>close\<close> event that the
  transport emits of its own accord (the remote side has hung up, or the connection is
  lost), after clearing the call's flag. When the component unmounts, React detaches the
  refs of the two audio elements before it runs the cleanup of the effect.

  An \<open>await\<close> of \<open>ensureLocalStream\<close> that finds the stream already held continues
  before any other event; one that calls \<open>getUserMedia\<close> suspends the function until
  \<open>MediaSettled\<close> resumes it, and other events may come in between.

  The transport and the browser are collaborators: an operation on them is recorded as an
  effect, and whatever they do in response reaches the page as an event. The buttons of
  the page are disabled in some states (Call unless \<open>isReady\<close> and the identifier is not
  blank, End unless \<open>isCallActive\<close>); the machine accepts a click in every state, so what
  is proved of all its runs holds of the runs the buttons allow.
\<close>

datatype event =
    PeerLoaded jsstring
  | PeerOpen jsstring
  | PeerCall MediaConnection
  | PeerDisconnected
  | PeerError thrown
  | CallAnswered nat
  | CallStream nat MediaStream
  | CallClose nat
  | CallError nat thrown
  | InputRemoteId jsstring
  | ClickCall
  | ClickEnd
  | MediaSettled continuation "thrown + MediaStream"
  | AnimationFrame nat
  | Sound "8 word list"
  | Unmount

definition suspend :: "continuation \<Rightarrow> state \<Rightarrow> state" where
  "suspend k s = (emit [GetUserMedia] s)\<lparr>awaiting := add_mset k (awaiting s)\<rparr>"

definition placeCall_begin :: "state \<Rightarrow> state" where
  "placeCall_begin s =
     (if trim (remoteId s) = [] then updateStatus Error (js ''Enter a peer ID before calling.'') s
      else if peerRef s = None then updateStatus Error (js ''Agent not ready yet.'') s
      else case localStreamRef s of
             Some stream \<Rightarrow> placeCall_continue (remoteId s) (Inr stream) s
           | None \<Rightarrow> suspend (PlaceCallK (remoteId s)) s)"

definition onPeerCall_begin :: "MediaConnection \<Rightarrow> state \<Rightarrow> state" where
  "onPeerCall_begin incomingCall s =
     (let s1 = updateStatus Incoming
                 (js ''Call incoming from '' @ peer incomingCall @ js ''.'') s
      in case localStreamRef s1 of
           Some stream \<Rightarrow> onPeerCall_continue incomingCall (Inr stream) s1
         | None \<Rightarrow> suspend (AnswerK incomingCall) s1)"

definition resume :: "continuation \<Rightarrow> thrown + MediaStream \<Rightarrow> state \<Rightarrow> state" where
  "resume k gum s =
     (if k \<in># awaiting s
      then case ensureLocalStream_settled gum (s\<lparr>awaiting := awaiting s - {#k#}\<rparr>) of
             (r, s') \<Rightarrow>
               (case k of
                  PlaceCallK rid \<Rightarrow> placeCall_continue rid r s'
                | AnswerK incomingCall \<Rightarrow> onPeerCall_continue incomingCall r s')
      else s)"

definition frameFires :: "nat \<Rightarrow> state \<Rightarrow> state" where
  "frameFires handle s =
     (case map_of (frameCallbacks s) handle of
        Some analyser \<Rightarrow>
          tick analyser (s\<lparr>frameCallbacks := filter (\<lambda>cb. fst cb \<noteq> handle) (frameCallbacks s)\<rparr>)
      | None \<Rightarrow> s)"

fun step :: "event \<Rightarrow> state \<Rightarrow> state" where
  "step (PeerLoaded ident) s =
     (if peerListening s then s else s\<lparr>peerRef := Some (Peer ident), peerListening := True\<rparr>)"
| "step (PeerOpen ident) s = (if peerListening s then onPeerOpen ident s else s)"
| "step (PeerCall incomingCall) s = (if peerListening s then onPeerCall_begin incomingCall s else s)"
| "step PeerDisconnected s = (if peerListening s then onPeerDisconnected s else s)"
| "step (PeerError error) s = (if peerListening s then onPeerError error s else s)"
| "step (CallAnswered h) s = s\<lparr>openCalls := insert h (openCalls s)\<rparr>"
| "step (CallStream h remoteStream) s =
     fold (\<lambda>call. onCallStream call remoteStream) (listenersOf h s) s"
| "step (CallClose h) s =
     fold (\<lambda>call. onCallClose) (listenersOf h s) (s\<lparr>openCalls := openCalls s - {h}\<rparr>)"
| "step (CallError h error) s = fold (\<lambda>call. onCallError error) (listenersOf h s) s"
| "step (InputRemoteId v) s = s\<lparr>remoteId := v\<rparr>"
| "step ClickCall s = placeCall_begin s"
| "step ClickEnd s = endCall s"
| "step (MediaSettled k gum) s = resume k gum s"
| "step (AnimationFrame handle) s = frameFires handle s"
| "step (Sound spectrum) s = s\<lparr>frequencyData := spectrum\<rparr>"
| "step Unmount s = cleanup (s\<lparr>remoteAudioRef := None, localAudioRef := None\<rparr>)"

definition run :: "event list \<Rightarrow> state \<Rightarrow> state" where
  "run es s = fold step es s"

section \<open>Derived notions and example states\<close>

text \<open>
  The effects of \<open>close\<close> on a held call that is not open and of the guarded
  \<open>cancelAnimationFrame\<close>, and everything a teardown releases in a state whose call
  is not open: each resource that is held, once, in the order of \<open>destroyCall\<close>.
\<close>

definition closeEffects :: "state \<Rightarrow> effect list" where
  "closeEffects s = (case callRef s of Some call \<Rightarrow> [Close (conn_id call)] | None \<Rightarrow> [])"

definition cancelEffects :: "state \<Rightarrow> effect list" where
  "cancelEffects s =
     (case animationFrameRef s of
        Some handle \<Rightarrow> if handle \<noteq> 0 then [CancelAnimationFrame handle] else []
      | None \<Rightarrow> [])"

definition releases :: "state \<Rightarrow> effect list" where
  "releases s =
     closeEffects s
     @ (case localStreamRef s of Some stream \<Rightarrow> map StopTrack (tracks stream) | None \<Rightarrow> [])
     @ (case audioContextRef s of Some context \<Rightarrow> [CloseContext context] | None \<Rightarrow> [])
     @ (case analyserRef s of Some analyser \<Rightarrow> [Disconnect (node_id analyser)] | None \<Rightarrow> [])
     @ cancelEffects s"

text \<open>
  \<open>heldCalls\<close> is the call in \<open>callRef\<close>, as a set. \<open>handlerRuns\<close> counts the close
  handlers that closing the held call runs: those registered on it, when it is open.
  \<open>released\<close> is the state with everything that a teardown clears cleared.
\<close>

definition heldCalls :: "state \<Rightarrow> nat set" where
  "heldCalls s = (case callRef s of Some call \<Rightarrow> {conn_id call} | None \<Rightarrow> {})"

definition handlerRuns :: "state \<Rightarrow> nat" where
  "handlerRuns s =
     (case callRef s of
        Some call \<Rightarrow>
          if conn_id call \<in> openCalls s then length (listenersOf (conn_id call) s) else 0
      | None \<Rightarrow> 0)"

definition released :: "state \<Rightarrow> state" where
  "released s =
     s\<lparr>callRef := None,
       remoteAudioRef := (case remoteAudioRef s of Some src \<Rightarrow> Some None | None \<Rightarrow> None),
       localStreamRef := None, audioContextRef := None, analyserRef := None,
       animationFrameRef := (if animationFrameRef s = Some 0 then Some 0 else None),
       frameCallbacks :=
         (case animationFrameRef s of
            Some handle \<Rightarrow> if handle \<noteq> 0 then filter (\<lambda>cb. fst cb \<noteq> handle) (frameCallbacks s)
                           else frameCallbacks s
          | None \<Rightarrow> frameCallbacks s),
       micLevel := Num 0\<rparr>"

text \<open>
  The effects of \<open>callRef.current?.close()\<close> in general. When close handlers run, the
  first sets the status and tears down, closing the call a second time; each further one
  finds nothing left and only sets the status. The effects of \<open>destroyCall\<close> are the
  same in that case, since nothing is left for the rest of its body.
\<close>

definition closingEffects :: "state \<Rightarrow> effect list" where
  "closingEffects s =
     (case handlerRuns s of
        0 \<Rightarrow> closeEffects s
      | Suc further \<Rightarrow>
          closeEffects s @ [UpdateStatus Ready (js ''Call ended.'')] @ releases s
          @ replicate further (UpdateStatus Ready (js ''Call ended.'')))"

definition teardownEffects :: "state \<Rightarrow> effect list" where
  "teardownEffects s = (case handlerRuns s of 0 \<Rightarrow> releases s | Suc further \<Rightarrow> closingEffects s)"

text \<open>The effects of \<open>observeMicLevel\<close> and of the three registrations on a call.\<close>

definition micEffects :: "state \<Rightarrow> effect list" where
  "micEffects s =
     (case analyserRef s of
        None \<Rightarrow> []
      | Some analyser \<Rightarrow> cancelEffects s @ [RequestAnimationFrame (Suc (rafCounter s))])"

definition registrations :: "nat \<Rightarrow> effect list" where
  "registrations h = [OnStream h, OnClose h, OnError h]"

text \<open>
  The outcomes of \<open>ensureLocalStream\<close> once the microphone is granted: \<open>stored\<close> is
  the state with the stream kept (where the function throws for want of an audio context
  constructor), \<open>analysed\<close> the state with context and analyser in place.
\<close>

definition stored :: "MediaStream \<Rightarrow> state \<Rightarrow> state" where
  "stored stream s =
     s\<lparr>localStreamRef := Some stream,
       localAudioRef := (case localAudioRef s of Some src \<Rightarrow> Some (Some stream) | None \<Rightarrow> None)\<rparr>"

definition analysed :: "MediaStream \<Rightarrow> state \<Rightarrow> state" where
  "analysed stream s =
     (stored stream s)
      \<lparr>audioContextRef :=
         (case audioContextRef s of Some context \<Rightarrow> Some context | None \<Rightarrow> Some (allocated s)),
       analyserRef :=
         Some \<lparr>node_id = (case audioContextRef s of Some context \<Rightarrow> allocated s
                            | None \<Rightarrow> Suc (allocated s)),
               fftSize = 256\<rparr>,
       allocated :=
         (case audioContextRef s of Some context \<Rightarrow> Suc (allocated s)
          | None \<Rightarrow> Suc (Suc (allocated s)))\<rparr>"

definition noAudioContext :: "state \<Rightarrow> bool" where
  "noAudioContext s \<longleftrightarrow> audioContextRef s = None \<and> \<not> audioContextCtor s"

definition unsupportedMessage :: jsstring where
  "unsupportedMessage = js ''AudioContext is not supported in this browser.''"

definition deniedMessage :: "thrown \<Rightarrow> jsstring" where
  "deniedMessage error = messageOr error (js ''Microphone access was denied.'')"

text \<open>
  What acquisition adds to the trace, given its result, and what the rest of \<open>placeCall\<close>
  and of the \<open>call\<close> handler add after it.
\<close>

definition failureEffects :: "thrown + MediaStream \<Rightarrow> effect list" where
  "failureEffects r =
     (case r of Inl error \<Rightarrow> [UpdateStatus Error (deniedMessage error)] | Inr stream \<Rightarrow> [])"

definition acquisitionEffects :: "state \<Rightarrow> thrown + MediaStream \<Rightarrow> effect list" where
  "acquisitionEffects s r =
     (case localStreamRef s of Some held \<Rightarrow> [] | None \<Rightarrow> GetUserMedia # failureEffects r)"

definition dialEffects :: "jsstring \<Rightarrow> thrown + MediaStream \<Rightarrow> state \<Rightarrow> effect list" where
  "dialEffects rid r s =
     (case r of
        Inl error \<Rightarrow> [UpdateStatus Error (messageOr error (js ''Failed to start call.''))]
      | Inr stream \<Rightarrow>
          micEffects s @ [UpdateStatus Calling (js ''Calling '' @ rid @ [ellipsis])]
          @ (case peerRef s of
               Some p \<Rightarrow>
                 [Call (trim rid) stream] @ closingEffects (observeMicLevel s)
                 @ registrations (allocated s)
             | None \<Rightarrow> [UpdateStatus Error nullCallMessage]))"

definition answerEffects :: "MediaConnection \<Rightarrow> thrown + MediaStream \<Rightarrow> state \<Rightarrow> effect list" where
  "answerEffects incomingCall r s =
     (case r of
        Inl error \<Rightarrow> [UpdateStatus Error (messageOr error (js ''Unable to answer incoming call.''))]
      | Inr stream \<Rightarrow>
          micEffects s @ [Answer (conn_id incomingCall) stream]
          @ closingEffects (answer incomingCall stream (observeMicLevel s))
          @ registrations (conn_id incomingCall))"

text \<open>
  In a list of effects, every call operation of the transport comes immediately after a
  status update to \<open>calling\<close>; the flag says whether the effect before the list was one.
\<close>

fun isCall :: "effect \<Rightarrow> bool" where
  "isCall (Call ident stream) = True"
| "isCall other = False"

fun setsCalling :: "effect \<Rightarrow> bool" where
  "setsCalling (UpdateStatus nextStatus message) = (nextStatus = Calling)"
| "setsCalling other = False"

fun announcedCalls :: "bool \<Rightarrow> effect list \<Rightarrow> bool" where
  "announcedCalls calling [] = True"
| "announcedCalls calling (e # es) =
     ((if isCall e then calling else True) \<and> announcedCalls (setsCalling e) es)"

text \<open>
  The frame loop: at most one animation frame callback is scheduled, and it is the one
  whose handle is in \<open>animationFrameRef\<close>.
\<close>

definition oneLoop :: "state \<Rightarrow> bool" where
  "oneLoop s \<longleftrightarrow>
     (case frameCallbacks s of
        [] \<Rightarrow> True
      | [cb] \<Rightarrow> animationFrameRef s = Some (fst cb) \<and> fst cb \<noteq> 0
      | cb # cb' # cbs \<Rightarrow> False)"





text \<open>
  The mic level, in the words of the specification: the arithmetic mean of the
  magnitudes of all frequency bins of one read. Every analyser the page creates has an
  FFT size of 256, hence 128 bins, and the published level is a byte-sized integer.
\<close>

definition arithmeticMean :: "8 word list \<Rightarrow> rat" where
  "arithmeticMean data = of_nat (sum_list (map unat data)) / of_nat (length data)"

definition wellTuned :: "state \<Rightarrow> bool" where
  "wellTuned s \<longleftrightarrow>
     (case analyserRef s of Some analyser \<Rightarrow> fftSize analyser = 256 | None \<Rightarrow> True)
     \<and> list_all (\<lambda>cb. fftSize (snd cb) = 256) (frameCallbacks s)
     \<and> (case micLevel s of Num m \<Rightarrow> 0 \<le> m \<and> m \<le> 255 | NaN \<Rightarrow> False)"

text \<open>
  Runs of the page from its initial state. In \<open>loaded\<close> the transport module has
  arrived; in \<open>typed\<close> the user has also typed a peer identifier with spaces around it,
  in \<open>blank\<close> one of white space only. In \<open>dialled\<close> the user has pressed Call and
  the microphone request has been granted. In \<open>ringing\<close> an inbound call has arrived and
  the microphone request is pending. In \<open>unsupported\<close> the browser has no audio context
  constructor and an inbound call arrives: the microphone is granted, and acquisition
  then fails with the stream already stored. In \<open>answered\<close> the inbound call has been
  answered with the granted microphone, so it is held and open. In \<open>superseded\<close> the
  inbound call arrives during the placed call of \<open>dialled\<close> and takes its place.
\<close>

definition bob :: jsstring where
  "bob = js '' bob ''"

definition mic :: MediaStream where
  "mic = \<lparr>stream_id = 1, tracks = [1, 2]\<rparr>"

definition remote :: MediaStream where
  "remote = \<lparr>stream_id = 7, tracks = [8]\<rparr>"

definition inbound :: MediaConnection where
  "inbound = \<lparr>conn_id = 9, peer = js ''alice''\<rparr>"

definition denied :: thrown where
  "denied = ErrorInstance (js ''Permission denied'')"

definition loaded :: state where
  "loaded = run [PeerLoaded (js ''agentic-ab12-cd34'')] (init True)"

definition typed :: state where
  "typed = run [PeerLoaded (js ''agentic-ab12-cd34''), InputRemoteId bob] (init True)"

definition blank :: state where
  "blank = run [PeerLoaded (js ''agentic-ab12-cd34''), InputRemoteId [0x20, 0x9, 0xA0, 0x3000]]
             (init True)"

definition dialled :: state where
  "dialled = run [PeerLoaded (js ''agentic-ab12-cd34''), InputRemoteId bob, ClickCall,
                  MediaSettled (PlaceCallK bob) (Inr mic)] (init True)"

definition ringing :: state where
  "ringing = run [PeerLoaded (js ''agentic-ab12-cd34''), PeerCall inbound] (init True)"

definition unsupported :: state where
  "unsupported = run [PeerLoaded (js ''agentic-ab12-cd34''), PeerCall inbound,
                      MediaSettled (AnswerK inbound) (Inr mic)] (init False)"

definition answered :: state where
  "answered = run [PeerLoaded (js ''agentic-ab12-cd34''), PeerCall inbound,
                   MediaSettled (AnswerK inbound) (Inr mic)] (init True)"


text \<open>In \<open>loud\<close> every bin of the analyser is at its maximum when the next frame fires.\<close>

definition loud :: state where
  "loud = run [Sound (replicate 128 255), AnimationFrame 1] dialled"

section \<open>Facts about the functions\<close>

lemma closeQuietly_eq: "closeQuietly s = s\<lparr>trace := trace s @ closeEffects s\<rparr>"
  by (cases "callRef s") (simp_all add: closeQuietly_def closeEffects_def emit_def)

lemma cancelPendingFrame_eq:
  "cancelPendingFrame s =
     s\<lparr>animationFrameRef := (if animationFrameRef s = Some 0 then Some 0 else None),
       frameCallbacks :=
         (case animationFrameRef s of
            Some handle \<Rightarrow> if handle \<noteq> 0 then filter (\<lambda>cb. fst cb \<noteq> handle) (frameCallbacks s)
                           else frameCallbacks s
          | None \<Rightarrow> frameCallbacks s),
       trace := trace s @ cancelEffects s\<rparr>"
  by (cases "animationFrameRef s")
     (simp_all add: cancelPendingFrame_def cancelAnimationFrame_def cancelEffects_def emit_def)

lemma destroyCallWith_closeQuietly:
  "destroyCallWith closeQuietly s = (released s)\<lparr>trace := trace s @ releases s\<rparr>"
  by (cases "callRef s"; cases "remoteAudioRef s"; cases "localStreamRef s"; cases "audioContextRef s";
      cases "analyserRef s"; cases "animationFrameRef s"; cases s;
      simp add: destroyCallWith_def closeQuietly_def cancelPendingFrame_def cancelAnimationFrame_def
        emit_def releases_def closeEffects_def cancelEffects_def released_def)

lemma closeHandler_eq:
  "destroyCallWith closeQuietly (updateStatus nextStatus message s) =
     (released s)\<lparr>status := nextStatus, statusMessage := message,
                   trace := trace s @ UpdateStatus nextStatus message # releases s\<rparr>"
  by (cases "remoteAudioRef s"; cases "animationFrameRef s"; cases s)
     (simp_all add: destroyCallWith_closeQuietly updateStatus_def emit_def released_def releases_def
        closeEffects_def cancelEffects_def)

lemma closeHandler_spent:
  "destroyCallWith closeQuietly
     (updateStatus nextStatus message
        ((released s)\<lparr>status := nextStatus, statusMessage := message, trace := t\<rparr>)) =
   (released s)\<lparr>status := nextStatus, statusMessage := message,
                 trace := t @ [UpdateStatus nextStatus message]\<rparr>"
  by (cases "remoteAudioRef s"; cases "animationFrameRef s"; cases s)
     (simp_all add: closeHandler_eq released_def releases_def closeEffects_def cancelEffects_def)

lemma closeHandlers_spent:
  "fold (\<lambda>listener s2. destroyCallWith closeQuietly (updateStatus nextStatus message s2)) ls
     ((released s)\<lparr>status := nextStatus, statusMessage := message, trace := t\<rparr>) =
   (released s)\<lparr>status := nextStatus, statusMessage := message,
                 trace := t @ replicate (length ls) (UpdateStatus nextStatus message)\<rparr>"
proof (induction ls arbitrary: t)
  case Nil
  show ?case by simp
next
  case (Cons l ls)
  show ?case
    by (simp only: fold_simps closeHandler_spent Cons.IH) (simp add: replicate_app_Cons_same)
qed


lemma closeCurrentCall_quiet:
  "handlerRuns s = 0 \<Longrightarrow>
   closeCurrentCall s = s\<lparr>openCalls := openCalls s - heldCalls s, trace := trace s @ closeEffects s\<rparr>"
  by (cases "callRef s")
     (auto simp add: closeCurrentCall_def handlerRuns_def heldCalls_def closeEffects_def emit_def
        listenersOf_def Let_def split: if_splits)

lemma closeCurrentCall_handled:
  assumes "handlerRuns s \<noteq> 0"
  shows "closeCurrentCall s =
           (released s)\<lparr>status := Ready, statusMessage := js ''Call ended.'',
                         openCalls := openCalls s - heldCalls s,
                         trace := trace s @ closingEffects s\<rparr>"
proof -
  from assms obtain call where held: "callRef s = Some call"
    by (cases "callRef s") (simp_all add: handlerRuns_def)
  from assms held have opened: "conn_id call \<in> openCalls s"
    by (simp add: handlerRuns_def split: if_splits)
  from assms held opened obtain l ls where ls: "listenersOf (conn_id call) s = l # ls"
    by (cases "listenersOf (conn_id call) s") (simp_all add: handlerRuns_def)
  have runs: "handlerRuns s = Suc (length ls)"
    using held opened ls by (simp add: handlerRuns_def)
  let ?v = "s\<lparr>trace := trace s @ [Close (conn_id call)], openCalls := openCalls s - {conn_id call}\<rparr>"
  have first: "destroyCallWith closeQuietly (updateStatus Ready (js ''Call ended.'') ?v) =
      (released ?v)\<lparr>status := Ready, statusMessage := js ''Call ended.'',
                     trace := trace s @ Close (conn_id call) # UpdateStatus Ready (js ''Call ended.'') # releases s\<rparr>"
    unfolding closeHandler_eq
    by (simp add: releases_def closeEffects_def cancelEffects_def)
  have "closeCurrentCall s =
     fold (\<lambda>listener s2. destroyCallWith closeQuietly (updateStatus Ready (js ''Call ended.'') s2))
       (l # ls) ?v"
    using held opened ls by (simp add: closeCurrentCall_def emit_def listenersOf_def Let_def)
  also have "\<dots> = (released ?v)\<lparr>status := Ready, statusMessage := js ''Call ended.'',
       trace := (trace s @ Close (conn_id call) # UpdateStatus Ready (js ''Call ended.'') # releases s)
                @ replicate (length ls) (UpdateStatus Ready (js ''Call ended.''))\<rparr>"
    by (simp only: fold_simps first closeHandlers_spent)
  also have "\<dots> = (released s)\<lparr>status := Ready, statusMessage := js ''Call ended.'',
                         openCalls := openCalls s - heldCalls s,
                         trace := trace s @ closingEffects s\<rparr>"
  proof -
    have effects: "closingEffects s =
        Close (conn_id call) # UpdateStatus Ready (js ''Call ended.'') # releases s
        @ replicate (length ls) (UpdateStatus Ready (js ''Call ended.''))"
      by (simp add: closingEffects_def runs closeEffects_def held)
    have calls: "heldCalls s = {conn_id call}"
      by (simp add: heldCalls_def held)
    show ?thesis
      unfolding effects calls
      by (cases "remoteAudioRef s"; cases "animationFrameRef s"; cases s)
         (simp_all add: released_def)
  qed
  finally show ?thesis .
qed

lemma destroyCallWith_eq:
  "destroyCallWith close s =
     (released (close s))\<lparr>trace := trace (close s) @ releases ((close s)\<lparr>callRef := None\<rparr>)\<rparr>"
  by (cases "remoteAudioRef (close s)"; cases "localStreamRef (close s)";
      cases "audioContextRef (close s)"; cases "analyserRef (close s)";
      cases "animationFrameRef (close s)"; cases "close s";
      simp add: destroyCallWith_def cancelPendingFrame_def cancelAnimationFrame_def
        emit_def releases_def closeEffects_def cancelEffects_def released_def)

lemma destroyCall_released:
  "destroyCall s =
     (released s)\<lparr>status := (if handlerRuns s = 0 then status s else Ready),
                   statusMessage := (if handlerRuns s = 0 then statusMessage s else js ''Call ended.''),
                   openCalls := openCalls s - heldCalls s,
                   trace := trace s @ teardownEffects s\<rparr>"
proof (cases "handlerRuns s")
  case 0
  have c: "closeCurrentCall s =
      s\<lparr>openCalls := openCalls s - heldCalls s, trace := trace s @ closeEffects s\<rparr>"
    by (rule closeCurrentCall_quiet) (rule 0)
  have t: "teardownEffects s = releases s"
    by (simp add: teardownEffects_def 0)
  show ?thesis
    unfolding destroyCall_def destroyCallWith_eq c t 0
    by (cases "remoteAudioRef s"; cases "animationFrameRef s"; cases s)
       (simp_all add: released_def releases_def closeEffects_def cancelEffects_def)
next
  case (Suc n)
  have c: "closeCurrentCall s =
           (released s)\<lparr>status := Ready, statusMessage := js ''Call ended.'',
                         openCalls := openCalls s - heldCalls s,
                         trace := trace s @ closingEffects s\<rparr>"
    by (rule closeCurrentCall_handled) (simp add: Suc)
  have t: "teardownEffects s = closingEffects s"
    by (simp add: teardownEffects_def Suc)
  show ?thesis
    unfolding destroyCall_def destroyCallWith_eq c t Suc
    by (cases "remoteAudioRef s"; cases "animationFrameRef s"; cases s)
       (simp_all add: released_def releases_def closeEffects_def cancelEffects_def)
qed

lemma destroyCall_eq:
  "destroyCall s =
     s\<lparr>callRef := None,
       remoteAudioRef := (case remoteAudioRef s of Some src \<Rightarrow> Some None | None \<Rightarrow> None),
       localStreamRef := None, audioContextRef := None, analyserRef := None,
       animationFrameRef := (if animationFrameRef s = Some 0 then Some 0 else None),
       frameCallbacks :=
         (case animationFrameRef s of
            Some handle \<Rightarrow> if handle \<noteq> 0 then filter (\<lambda>cb. fst cb \<noteq> handle) (frameCallbacks s)
                           else frameCallbacks s
          | None \<Rightarrow> frameCallbacks s),
       trace := trace s @ teardownEffects s,
       micLevel := Num 0,
       status := (if handlerRuns s = 0 then status s else Ready),
       statusMessage := (if handlerRuns s = 0 then statusMessage s else js ''Call ended.''),
       openCalls := openCalls s - heldCalls s\<rparr>"
  unfolding destroyCall_released
  by (cases "remoteAudioRef s"; cases "animationFrameRef s"; cases s) (simp_all add: released_def)

lemma closeCurrentCall_eq:
  "closeCurrentCall s =
     (if handlerRuns s = 0
      then s\<lparr>openCalls := openCalls s - heldCalls s, trace := trace s @ closingEffects s\<rparr>
      else (destroyCall s)\<lparr>trace := trace s @ closingEffects s\<rparr>)"
proof (cases "handlerRuns s")
  case 0
  then show ?thesis by (simp add: closeCurrentCall_quiet closingEffects_def)
next
  case (Suc n)
  then have "handlerRuns s \<noteq> 0" by simp
  then show ?thesis
    unfolding destroyCall_released closeCurrentCall_handled [OF \<open>handlerRuns s \<noteq> 0\<close>]
    by (cases s) (simp add: Suc)
qed

text \<open>
  The recursive equations of the source: \<open>close\<close> on the held call, when it is open,
  runs \<open>onCallClose\<close> for every close handler registered on it, and \<open>onCallClose\<close>
  is \<open>updateStatus\<close> followed by \<open>destroyCall\<close>, which closes the held call.
\<close>

lemma destroyCall_not_open:
  assumes "heldCalls s \<inter> openCalls s = {}"
  shows "destroyCall s = destroyCallWith closeQuietly s"
proof -
  have runs: "handlerRuns s = 0"
    using assms by (cases "callRef s") (auto simp: handlerRuns_def heldCalls_def)
  have calls: "openCalls s - heldCalls s = openCalls s"
    using assms by auto
  have effects: "teardownEffects s = releases s"
    by (simp add: teardownEffects_def runs)
  show ?thesis
    unfolding destroyCall_released destroyCallWith_closeQuietly calls effects runs
    by (cases "remoteAudioRef s"; cases "animationFrameRef s"; cases s)
       (simp_all add: released_def)
qed

lemma closeHandlers_not_open:
  "heldCalls s \<inter> openCalls s = {} \<Longrightarrow>
   fold (\<lambda>listener. onCallClose) ls s =
   fold (\<lambda>listener s2. destroyCallWith closeQuietly (updateStatus Ready (js ''Call ended.'') s2)) ls s"
proof (induction ls arbitrary: s)
  case Nil
  show ?case by simp
next
  case (Cons l ls)
  have first: "onCallClose s =
      destroyCallWith closeQuietly (updateStatus Ready (js ''Call ended.'') s)"
    unfolding onCallClose_def
    by (rule destroyCall_not_open) (use Cons.prems in \<open>simp add: updateStatus_def emit_def heldCalls_def\<close>)
  have "heldCalls (onCallClose s) \<inter> openCalls (onCallClose s) = {}"
    by (simp add: onCallClose_def destroyCall_eq heldCalls_def)
  from Cons.IH [OF this] show ?case
    by (simp add: first)
qed

lemma closeCurrentCall_reenters:
  "closeCurrentCall s =
     (case callRef s of
        None \<Rightarrow> s
      | Some call \<Rightarrow>
          (let s1 = emit [Close (conn_id call)] s
           in if conn_id call \<in> openCalls s1
              then fold (\<lambda>listener. onCallClose) (listenersOf (conn_id call) s1)
                     (s1\<lparr>openCalls := openCalls s1 - {conn_id call}\<rparr>)
              else s1))"
proof (cases "callRef s")
  case None
  then show ?thesis by (simp add: closeCurrentCall_def)
next
  case (Some call)
  let ?s2 = "s\<lparr>trace := trace s @ [Close (conn_id call)],
                 openCalls := openCalls s - {conn_id call}\<rparr>"
  have "heldCalls ?s2 \<inter> openCalls ?s2 = {}"
    using Some by (simp add: heldCalls_def)
  note handlers = closeHandlers_not_open [OF this]
  show ?thesis
    using Some by (simp add: closeCurrentCall_def Let_def emit_def listenersOf_def handlers)
qed

lemma destroyCall_unfold: "destroyCall s = destroyCallWith closeCurrentCall s"
  by (simp add: destroyCall_def)

lemma releases_destroyCall: "releases (destroyCall s) = []"
  by (simp add: destroyCall_eq releases_def closeEffects_def cancelEffects_def)

lemma handlerRuns_destroyCall: "handlerRuns (destroyCall s) = 0"
proof -
  have "callRef (destroyCall s) = None" by (simp add: destroyCall_eq)
  then show ?thesis by (simp add: handlerRuns_def)
qed

lemma teardownEffects_destroyCall: "teardownEffects (destroyCall s) = []"
  by (simp add: teardownEffects_def handlerRuns_destroyCall releases_destroyCall)

lemma released_destroyCall: "released (destroyCall s) = destroyCall s"
  unfolding destroyCall_released
  by (cases "remoteAudioRef s"; cases "animationFrameRef s"; cases s) (simp_all add: released_def)

lemma destroyCall_twice: "destroyCall (destroyCall s) = destroyCall s"
proof -
  have "heldCalls (destroyCall s) = {}"
    by (simp add: heldCalls_def destroyCall_eq)
  then show ?thesis
    by (subst destroyCall_released [of "destroyCall s"])
       (simp add: handlerRuns_destroyCall teardownEffects_destroyCall released_destroyCall)
qed

lemma releases_nothing_held:
  "callRef s = None \<Longrightarrow> localStreamRef s = None \<Longrightarrow> audioContextRef s = None \<Longrightarrow>
   analyserRef s = None \<Longrightarrow> animationFrameRef s = None \<Longrightarrow> releases s = []"
  by (simp add: releases_def closeEffects_def cancelEffects_def)

lemma releases_stop_tracks:
  "localStreamRef s = Some stream \<Longrightarrow> t \<in> set (tracks stream) \<Longrightarrow> StopTrack t \<in> set (releases s)"
  by (simp add: releases_def)

lemma reduce_sum_eq: "reduce_sum data = sum_list (map unat data)"
proof -
  have "foldl (\<lambda>acc v. acc + unat v) a data = a + sum_list (map unat data)" for a
    by (induction data arbitrary: a) simp_all
  then show ?thesis by (simp add: reduce_sum_def)
qed

lemma volume_silence: "0 < n \<Longrightarrow> volume (replicate n 0) = Num 0"
  by (simp add: volume_def reduce_sum_eq Math_round_def sum_list_replicate floor_eq_iff)

lemmas model_defs = run_def placeCall_begin_def onPeerCall_begin_def suspend_def resume_def
  emit_def updateStatus_def
  ensureLocalStream_settled_def ensureLocalStream_acquired_def placeCall_continue_def
  onPeerCall_continue_def
  observeMicLevel_def tick_def cancelPendingFrame_def requestAnimationFrame_def
  getByteFrequencyData_def frequencyBinCount_def volume_silence
  registerCallHandlers_def closeCurrentCall_def answer_def init_def js_def

lemma trim_bob: "trim bob = js ''bob''"
  by (simp add: trim_def bob_def js_def isWhiteSpace_def)

lemma dialled_eq:
  "dialled =
     \<lparr> localId = [], remoteId = bob, status = Calling,
       statusMessage = js ''Calling '' @ bob @ [ellipsis], micLevel = Num 0,
       remoteAudioRef = Some None, localAudioRef = Some (Some mic),
       peerRef = Some (Peer (js ''agentic-ab12-cd34'')),
       callRef = Some \<lparr>conn_id = 2, peer = js ''bob''\<rparr>, localStreamRef = Some mic,
       analyserRef = Some \<lparr>node_id = 1, fftSize = 256\<rparr>,
       audioContextRef = Some 0, animationFrameRef = Some 1, isMounted = True,
       trace = [GetUserMedia, RequestAnimationFrame 1,
                UpdateStatus Calling (js ''Calling '' @ bob @ [ellipsis]),
                Call (js ''bob'') mic, OnStream 2, OnClose 2, OnError 2],
       frameCallbacks = [(1, \<lparr>node_id = 1, fftSize = 256\<rparr>)], rafCounter = 1,
       callListeners = [\<lparr>conn_id = 2, peer = js ''bob''\<rparr>],
       peerListening = True, awaiting = {#}, frequencyData = [],
       audioContextCtor = True, allocated = 3, openCalls = {} \<rparr>"
  by (simp add: dialled_def model_defs trim_bob [unfolded js_def] Let_def)

lemma unsupported_eq:
  "unsupported =
     \<lparr> localId = [], remoteId = [], status = Error,
       statusMessage = js ''AudioContext is not supported in this browser.'', micLevel = Num 0,
       remoteAudioRef = Some None, localAudioRef = Some (Some mic),
       peerRef = Some (Peer (js ''agentic-ab12-cd34'')),
       callRef = None, localStreamRef = Some mic,
       analyserRef = None,
       audioContextRef = None, animationFrameRef = None, isMounted = True,
       trace = [UpdateStatus Incoming (js ''Call incoming from alice.''), GetUserMedia,
                UpdateStatus Error (js ''AudioContext is not supported in this browser.''),
                UpdateStatus Error (js ''AudioContext is not supported in this browser.'')],
       frameCallbacks = [], rafCounter = 0,
       callListeners = [],
       peerListening = True, awaiting = {#}, frequencyData = [],
       audioContextCtor = False, allocated = 0, openCalls = {} \<rparr>"
  by (simp add: unsupported_def model_defs inbound_def Let_def)

lemma loaded_eq:
  "loaded = (init True)\<lparr>peerRef := Some (Peer (js ''agentic-ab12-cd34'')), peerListening := True\<rparr>"
  by (simp add: loaded_def run_def init_def)

lemma typed_eq:
  "typed = (init True)\<lparr>peerRef := Some (Peer (js ''agentic-ab12-cd34'')), peerListening := True,
                         remoteId := bob\<rparr>"
  by (simp add: typed_def run_def init_def)

lemma blank_eq:
  "blank = (init True)\<lparr>peerRef := Some (Peer (js ''agentic-ab12-cd34'')), peerListening := True,
                         remoteId := [0x20, 0x9, 0xA0, 0x3000]\<rparr>"
  by (simp add: blank_def run_def init_def)

lemma ringing_eq:
  "ringing = loaded\<lparr>status := Incoming, statusMessage := js ''Call incoming from alice.'',
                     trace := [UpdateStatus Incoming (js ''Call incoming from alice.''), GetUserMedia],
                     awaiting := {#AnswerK inbound#}\<rparr>"
  by (simp add: ringing_def loaded_eq run_def init_def onPeerCall_begin_def updateStatus_def
        emit_def suspend_def inbound_def js_def Let_def)

lemma answered_eq:
  "answered =
     \<lparr> localId = [], remoteId = [], status = Incoming,
       statusMessage = js ''Call incoming from alice.'', micLevel = Num 0,
       remoteAudioRef = Some None, localAudioRef = Some (Some mic),
       peerRef = Some (Peer (js ''agentic-ab12-cd34'')),
       callRef = Some inbound, localStreamRef = Some mic,
       analyserRef = Some \<lparr>node_id = 1, fftSize = 256\<rparr>,
       audioContextRef = Some 0, animationFrameRef = Some 1, isMounted = True,
       trace = [UpdateStatus Incoming (js ''Call incoming from alice.''), GetUserMedia,
                RequestAnimationFrame 1, Answer 9 mic, OnStream 9, OnClose 9, OnError 9],
       frameCallbacks = [(1, \<lparr>node_id = 1, fftSize = 256\<rparr>)], rafCounter = 1,
       callListeners = [inbound],
       peerListening = True, awaiting = {#}, frequencyData = [],
       audioContextCtor = True, allocated = 2, openCalls = {9} \<rparr>"
  by (simp add: answered_def model_defs inbound_def Let_def)


section \<open>Teardown\<close>

lemma count_StopTrack: "count_list (map StopTrack ts) (StopTrack t) = count_list ts t"
  by (induction ts) simp_all

lemma count_not_StopTrack: "(\<And>t. e \<noteq> StopTrack t) \<Longrightarrow> count_list (map StopTrack ts) e = 0"
  by (induction ts) auto

lemma count_status: "count_list (replicate n (UpdateStatus nextStatus message)) e
    = (if e = UpdateStatus nextStatus message then n else 0)"
  by (induction n) auto

lemma count_releases:
  "count_list (releases s) (StopTrack t)
     = (case localStreamRef s of Some stream \<Rightarrow> count_list (tracks stream) t | None \<Rightarrow> 0)"
  "count_list (releases s) (CloseContext c) = (if audioContextRef s = Some c then 1 else 0)"
  "count_list (releases s) (Disconnect a)
     = (case analyserRef s of Some analyser \<Rightarrow> if node_id analyser = a then 1 else 0 | None \<Rightarrow> 0)"
  "count_list (releases s) (CancelAnimationFrame h)
     = (if animationFrameRef s = Some h \<and> h \<noteq> 0 then 1 else 0)"
  "count_list (releases s) (Close k) = (if k \<in> heldCalls s then 1 else 0)"
  by (cases "callRef s"; cases "localStreamRef s"; cases "audioContextRef s"; cases "analyserRef s";
      cases "animationFrameRef s";
      simp add: releases_def closeEffects_def cancelEffects_def heldCalls_def count_StopTrack
        count_not_StopTrack)+

lemma count_teardownEffects:
  "count_list (teardownEffects s) (StopTrack t) = count_list (releases s) (StopTrack t)"
  "count_list (teardownEffects s) (CloseContext c) = count_list (releases s) (CloseContext c)"
  "count_list (teardownEffects s) (Disconnect a) = count_list (releases s) (Disconnect a)"
  "count_list (teardownEffects s) (CancelAnimationFrame h)
     = count_list (releases s) (CancelAnimationFrame h)"
  "count_list (teardownEffects s) (Close k)
     = (if k \<in> heldCalls s then if handlerRuns s = 0 then 1 else 2 else 0)"
  by (cases "handlerRuns s"; cases "callRef s";
      simp add: teardownEffects_def closingEffects_def closeEffects_def count_status
        count_releases heldCalls_def)+

text \<open>
  What a teardown does. \<open>destroyCall\<close> is a function from states to states with no
  failing branch, and a second teardown right after a first one changes nothing and
  releases nothing. When no call handle, stream, audio context, analyser or animation
  frame is held, a teardown releases nothing. After a teardown the mic level is 0, every
  track of the stream that was held has been stopped, and the call handle, stream, audio
  context and analyser refs are cleared.

  What one teardown releases depends on the held call. When no close handler runs (no
  call is held, or the held call is not open), it is \<open>releases s\<close>: each held resource
  once, and the status is left alone. When the held call is open, its \<open>close\<close> runs the
  page's close handler, which sets the status to \<open>ready\<close> with \<open>Call ended.\<close> and tears
  down before \<open>close\<close> returns: the call is closed a second time, by then no longer
  open, and every other resource is still released once. The counts say so effect by
  effect.
\<close>

lemma destroyCall_effects:
  "destroyCall (destroyCall s) = destroyCall s
   \<and> trace (destroyCall (destroyCall s)) = trace (destroyCall s)
   \<and> trace (destroyCall s) = trace s @ teardownEffects s
   \<and> (handlerRuns s = 0 \<longrightarrow>
        teardownEffects s = releases s
        \<and> status (destroyCall s) = status s
        \<and> statusMessage (destroyCall s) = statusMessage s)
   \<and> (\<forall>n. handlerRuns s = Suc n \<longrightarrow>
        teardownEffects s =
          closeEffects s @ [UpdateStatus Ready (js ''Call ended.'')] @ releases s
          @ replicate n (UpdateStatus Ready (js ''Call ended.''))
        \<and> status (destroyCall s) = Ready
        \<and> statusMessage (destroyCall s) = js ''Call ended.'')
   \<and> (\<forall>h. count_list (teardownEffects s) (Close h)
          = (if h \<in> heldCalls s then if handlerRuns s = 0 then 1 else 2 else 0))
   \<and> (\<forall>t. count_list (teardownEffects s) (StopTrack t)
          = (case localStreamRef s of Some stream \<Rightarrow> count_list (tracks stream) t | None \<Rightarrow> 0))
   \<and> (\<forall>c. count_list (teardownEffects s) (CloseContext c)
          = (if audioContextRef s = Some c then 1 else 0))
   \<and> (\<forall>a. count_list (teardownEffects s) (Disconnect a)
          = (case analyserRef s of Some analyser \<Rightarrow> if node_id analyser = a then 1 else 0
             | None \<Rightarrow> 0))
   \<and> (\<forall>h. count_list (teardownEffects s) (CancelAnimationFrame h)
          = (if animationFrameRef s = Some h \<and> h \<noteq> 0 then 1 else 0))
   \<and> (callRef s = None \<and> localStreamRef s = None \<and> audioContextRef s = None
        \<and> analyserRef s = None \<and> animationFrameRef s = None
        \<longrightarrow> trace (destroyCall s) = trace s)
   \<and> micLevel (destroyCall s) = Num 0
   \<and> (\<forall>stream. localStreamRef s = Some stream
        \<longrightarrow> (\<forall>t \<in> set (tracks stream). StopTrack t \<in> set (trace (destroyCall s))))
   \<and> callRef (destroyCall s) = None \<and> localStreamRef (destroyCall s) = None
   \<and> audioContextRef (destroyCall s) = None \<and> analyserRef (destroyCall s) = None"
proof -
  have fields: "trace (destroyCall s) = trace s @ teardownEffects s"
    "micLevel (destroyCall s) = Num 0"
    "callRef (destroyCall s) = None" "localStreamRef (destroyCall s) = None"
    "audioContextRef (destroyCall s) = None" "analyserRef (destroyCall s) = None"
    "status (destroyCall s) = (if handlerRuns s = 0 then status s else Ready)"
    "statusMessage (destroyCall s) = (if handlerRuns s = 0 then statusMessage s else js ''Call ended.'')"
    by (simp_all add: destroyCall_eq)
  have quiet: "handlerRuns s = 0 \<Longrightarrow> teardownEffects s = releases s"
    by (simp add: teardownEffects_def)
  have handled: "handlerRuns s = Suc n \<Longrightarrow> teardownEffects s =
          closeEffects s @ [UpdateStatus Ready (js ''Call ended.'')] @ releases s
          @ replicate n (UpdateStatus Ready (js ''Call ended.''))" for n
    by (simp add: teardownEffects_def closingEffects_def)
  have unheld: "callRef s = None \<Longrightarrow> localStreamRef s = None \<Longrightarrow> audioContextRef s = None
        \<Longrightarrow> analyserRef s = None \<Longrightarrow> animationFrameRef s = None
        \<Longrightarrow> teardownEffects s = []"
    by (simp add: teardownEffects_def handlerRuns_def releases_nothing_held)
  have stopped: "localStreamRef s = Some stream \<Longrightarrow> t \<in> set (tracks stream) \<Longrightarrow>
      StopTrack t \<in> set (teardownEffects s)" for stream t
    by (cases "handlerRuns s")
       (simp_all add: teardownEffects_def closingEffects_def releases_stop_tracks)
  have untouched: "callRef s = None \<and> localStreamRef s = None \<and> audioContextRef s = None
        \<and> analyserRef s = None \<and> animationFrameRef s = None
        \<longrightarrow> trace (destroyCall s) = trace s"
    using unheld by (simp add: fields(1))
  show ?thesis
    by (intro conjI allI untouched)
       (simp_all add: destroyCall_twice fields quiet handled stopped count_teardownEffects
          count_releases)
qed

text \<open>
  C4 at an open call. In \<open>answered\<close> the inbound call 9 has been answered, so it is
  held and open, and the page's close handler is registered on it. A single teardown
  calls \<open>close\<close> on call 9 twice: once itself, and once more from the close handler that
  the first \<open>close\<close> runs, which also sets the status to \<open>ready\<close>. The stream tracks,
  the audio context, the analyser and the pending frame are released once; a second
  teardown changes nothing, and afterwards the mic level is 0 and the refs are cleared.
\<close>

theorem destroyCall_closes_twice:
  "callRef answered = Some inbound \<and> conn_id inbound = 9 \<and> 9 \<in> openCalls answered
   \<and> listenersOf 9 answered = [inbound]
   \<and> status answered = Incoming
   \<and> trace (destroyCall answered)
       = trace answered @ [Close 9, UpdateStatus Ready (js ''Call ended.''), Close 9,
                           StopTrack 1, StopTrack 2, CloseContext 0, Disconnect 1,
                           CancelAnimationFrame 1]
   \<and> status (destroyCall answered) = Ready
   \<and> destroyCall (destroyCall answered) = destroyCall answered
   \<and> trace (destroyCall (destroyCall answered))
       = trace answered @ [Close 9, UpdateStatus Ready (js ''Call ended.''), Close 9,
                           StopTrack 1, StopTrack 2, CloseContext 0, Disconnect 1,
                           CancelAnimationFrame 1]
   \<and> count_list (trace answered) (Close 9) = 0
   \<and> count_list (trace (destroyCall (destroyCall answered))) (Close 9) = 2
   \<and> micLevel (destroyCall answered) = Num 0
   \<and> callRef (destroyCall answered) = None \<and> localStreamRef (destroyCall answered) = None
   \<and> audioContextRef (destroyCall answered) = None \<and> analyserRef (destroyCall answered) = None"
proof -
  have runs: "handlerRuns answered = Suc 0"
    by (simp add: handlerRuns_def answered_eq listenersOf_def inbound_def)
  have effects: "teardownEffects answered
      = [Close 9, UpdateStatus Ready (js ''Call ended.''), Close 9, StopTrack 1, StopTrack 2,
         CloseContext 0, Disconnect 1, CancelAnimationFrame 1]"
    unfolding teardownEffects_def closingEffects_def runs
    by (simp add: releases_def closeEffects_def cancelEffects_def answered_eq mic_def inbound_def)
  have fields: "trace (destroyCall answered) = trace answered @ teardownEffects answered"
    "status (destroyCall answered) = Ready" "micLevel (destroyCall answered) = Num 0"
    "callRef (destroyCall answered) = None" "localStreamRef (destroyCall answered) = None"
    "audioContextRef (destroyCall answered) = None" "analyserRef (destroyCall answered) = None"
    by (simp_all add: destroyCall_eq runs)
  have before: "callRef answered = Some inbound" "conn_id inbound = 9" "9 \<in> openCalls answered"
    "listenersOf 9 answered = [inbound]" "status answered = Incoming"
    "count_list (trace answered) (Close 9) = 0"
    by (simp_all add: answered_eq inbound_def listenersOf_def)
  show ?thesis
    by (simp add: destroyCall_twice fields effects before)
qed

section \<open>Hanging up\<close>

lemma fold_last_wins:
  assumes "xs \<noteq> []" and "\<And>x t. P (f x t)"
  shows "P (fold f xs s)"
proof -
  from assms(1) obtain ys y where "xs = ys @ [y]" by (cases xs rule: rev_cases) auto
  then show ?thesis by (simp add: assms(2))
qed

lemma closingEffects_kinds:
  assumes "e \<in> set (closingEffects s)"
  shows "(\<exists>h. e = Close h) \<or> e = UpdateStatus Ready (js ''Call ended.'') \<or> (\<exists>t. e = StopTrack t)
         \<or> (\<exists>c. e = CloseContext c) \<or> (\<exists>a. e = Disconnect a)
         \<or> (\<exists>h. e = CancelAnimationFrame h)"
proof -
  have "e \<in> set (closeEffects s) \<or> e \<in> set (releases s) \<or> e = UpdateStatus Ready (js ''Call ended.'')"
    using assms by (cases "handlerRuns s") (auto simp: closingEffects_def)
  then show ?thesis
    by (auto simp: releases_def closeEffects_def cancelEffects_def split: option.splits if_splits)
qed

lemma handlerRuns_cong:
  "callRef s' = callRef s \<Longrightarrow> openCalls s' = openCalls s \<Longrightarrow> callListeners s' = callListeners s \<Longrightarrow>
   handlerRuns s' = handlerRuns s"
  by (simp add: handlerRuns_def listenersOf_def split: option.split)

lemma releases_cong:
  "callRef s' = callRef s \<Longrightarrow> localStreamRef s' = localStreamRef s \<Longrightarrow>
   audioContextRef s' = audioContextRef s \<Longrightarrow> analyserRef s' = analyserRef s \<Longrightarrow>
   animationFrameRef s' = animationFrameRef s \<Longrightarrow> releases s' = releases s"
  by (simp add: releases_def closeEffects_def cancelEffects_def)

lemma closingEffects_cong:
  "callRef s' = callRef s \<Longrightarrow> openCalls s' = openCalls s \<Longrightarrow> callListeners s' = callListeners s \<Longrightarrow>
   localStreamRef s' = localStreamRef s \<Longrightarrow>
   audioContextRef s' = audioContextRef s \<Longrightarrow> analyserRef s' = analyserRef s \<Longrightarrow>
   animationFrameRef s' = animationFrameRef s \<Longrightarrow> closingEffects s' = closingEffects s"
  by (simp add: closingEffects_def closeEffects_def
        handlerRuns_cong [of s' s] releases_cong [of s' s] split: nat.split)

lemma teardownEffects_cong:
  "callRef s' = callRef s \<Longrightarrow> openCalls s' = openCalls s \<Longrightarrow> callListeners s' = callListeners s \<Longrightarrow>
   localStreamRef s' = localStreamRef s \<Longrightarrow>
   audioContextRef s' = audioContextRef s \<Longrightarrow> analyserRef s' = analyserRef s \<Longrightarrow>
   animationFrameRef s' = animationFrameRef s \<Longrightarrow> teardownEffects s' = teardownEffects s"
  by (simp add: teardownEffects_def
        handlerRuns_cong [of s' s] releases_cong [of s' s] closingEffects_cong [of s' s]
      split: nat.split)

lemma handlerRuns_updateStatus:
  "handlerRuns (updateStatus nextStatus message s) = handlerRuns s"
  by (rule handlerRuns_cong) (simp_all add: updateStatus_def emit_def)

lemma teardownEffects_updateStatus:
  "teardownEffects (updateStatus nextStatus message s) = teardownEffects s"
  by (rule teardownEffects_cong) (simp_all add: updateStatus_def emit_def)

lemma handlerRuns_no_call: "callRef s = None \<Longrightarrow> handlerRuns s = 0"
  by (simp add: handlerRuns_def)

lemma teardownEffects_no_call: "callRef s = None \<Longrightarrow> teardownEffects s = releases s"
  by (simp add: teardownEffects_def handlerRuns_no_call)

lemma endCall_no_session:
  "callRef s = None \<Longrightarrow> endCall s = updateStatus Ready (js ''Call ended.'') (destroyCall s)"
  by (cases s) (simp add: endCall_def closeCurrentCall_def)

text \<open>
  C6, as the code has it. With no call handle held, \<open>endCall\<close> closes no transport call
  and fails in no way, but it is not without effect: it runs the teardown, which releases
  whatever else is held and sets the mic level to 0, and it sets the status to \<open>ready\<close>
  with the message \<open>Call ended.\<close> whatever the status was.
\<close>

theorem endCall_without_session:
  "callRef s = None \<longrightarrow>
     endCall s = updateStatus Ready (js ''Call ended.'') (destroyCall s)
     \<and> status (endCall s) = Ready \<and> statusMessage (endCall s) = js ''Call ended.''
     \<and> micLevel (endCall s) = Num 0
     \<and> localStreamRef (endCall s) = None \<and> audioContextRef (endCall s) = None
     \<and> analyserRef (endCall s) = None
     \<and> trace (endCall s) = trace s @ releases s @ [UpdateStatus Ready (js ''Call ended.'')]
     \<and> (\<forall>h. Close h \<notin> set (releases s))"
proof
  assume none: "callRef s = None"
  have "\<forall>h. Close h \<notin> set (releases s)"
    using none by (auto simp: releases_def closeEffects_def cancelEffects_def split: option.splits)
  then show "endCall s = updateStatus Ready (js ''Call ended.'') (destroyCall s)
     \<and> status (endCall s) = Ready \<and> statusMessage (endCall s) = js ''Call ended.''
     \<and> micLevel (endCall s) = Num 0
     \<and> localStreamRef (endCall s) = None \<and> audioContextRef (endCall s) = None
     \<and> analyserRef (endCall s) = None
     \<and> trace (endCall s) = trace s @ releases s @ [UpdateStatus Ready (js ''Call ended.'')]
     \<and> (\<forall>h. Close h \<notin> set (releases s))"
    by (simp add: endCall_no_session [OF none] updateStatus_def emit_def destroyCall_eq
          teardownEffects_no_call [OF none])
qed

text \<open>In \<open>unsupported\<close> no call is open and the stream of the failed acquisition is held.\<close>

theorem endCall_without_session_witness:
  "callRef unsupported = None
   \<and> status (endCall unsupported) = Ready
   \<and> statusMessage (endCall unsupported) = js ''Call ended.''
   \<and> trace (endCall unsupported)
       = trace unsupported @ [StopTrack 1, StopTrack 2, UpdateStatus Ready (js ''Call ended.'')]"
proof -
  have none: "callRef unsupported = None" by (simp add: unsupported_eq)
  have rel: "releases unsupported = [StopTrack 1, StopTrack 2]"
    by (simp add: releases_def closeEffects_def cancelEffects_def unsupported_eq mic_def)
  note facts = endCall_without_session [of unsupported, THEN mp, OF none, THEN conjunct2]
  from facts none rel show ?thesis by simp
qed

text \<open>
  C6 as stated does not hold: in \<open>unsupported\<close> no session is open, the status is
  \<open>error\<close> with the failure's message and a stream is held; \<open>endCall\<close> replaces the
  status and its message and releases the stream. Likewise after a Call click on a blank
  identifier, which leaves the status \<open>error\<close> and no session: hanging up makes it
  \<open>ready\<close>.
\<close>

theorem endCall_changes_state:
  "callRef unsupported = None
   \<and> status unsupported = Error
   \<and> statusMessage unsupported = js ''AudioContext is not supported in this browser.''
   \<and> localStreamRef unsupported = Some mic
   \<and> status (endCall unsupported) = Ready
   \<and> statusMessage (endCall unsupported) = js ''Call ended.''
   \<and> js ''Call ended.'' \<noteq> js ''AudioContext is not supported in this browser.''
   \<and> localStreamRef (endCall unsupported) = None
   \<and> callRef (step ClickCall blank) = None
   \<and> status (step ClickCall blank) = Error
   \<and> status (step ClickEnd (step ClickCall blank)) = Ready"
  by (simp add: endCall_def closeCurrentCall_def destroyCall_eq updateStatus_def emit_def
        unsupported_eq js_def placeCall_begin_def blank_eq init_def trim_def isWhiteSpace_def)

section \<open>Error events\<close>

lemma onCallError_fields:
  "status (onCallError e s) = (if handlerRuns s = 0 then Error else Ready)"
  "statusMessage (onCallError e s)
     = (if handlerRuns s = 0 then messageOr e (js ''Call error occurred.'') else js ''Call ended.'')"
  "callRef (onCallError e s) = None" "localStreamRef (onCallError e s) = None"
  "audioContextRef (onCallError e s) = None" "analyserRef (onCallError e s) = None"
  "micLevel (onCallError e s) = Num 0"
  "trace (onCallError e s)
     = trace s @ UpdateStatus Error (messageOr e (js ''Call error occurred.'')) # teardownEffects s"
  unfolding onCallError_def destroyCall_eq handlerRuns_updateStatus teardownEffects_updateStatus
  by (simp_all add: updateStatus_def emit_def)

text \<open>
  C7 at two error events. A peer error during the placed call of \<open>dialled\<close> sets the
  status to \<open>error\<close> with the error's message and discards nothing: the call handle, the
  stream, the audio context, the analyser and the pending frame are all still held, and
  with the status \<open>error\<close> neither the Call nor the End button is enabled. The
  handler of a call error tears the call state down, as it does here for call 2, which
  is not open. A call error on the open call of \<open>answered\<close> tears the call state down as
  well, but the status does not show the error: \<open>destroyCall\<close> closes the call, the
  page's close handler runs before \<open>close\<close> returns, and the status is left \<open>ready\<close>
  with \<open>Call ended.\<close>.
\<close>

theorem error_events_diverge:
  "peerListening dialled
   \<and> status (step (PeerError (ErrorInstance (js ''Could not connect to peer bob''))) dialled) = Error
   \<and> statusMessage (step (PeerError (ErrorInstance (js ''Could not connect to peer bob''))) dialled)
       = js ''Could not connect to peer bob''
   \<and> callRef (step (PeerError (ErrorInstance (js ''Could not connect to peer bob''))) dialled)
       = Some \<lparr>conn_id = 2, peer = js ''bob''\<rparr>
   \<and> localStreamRef (step (PeerError (ErrorInstance (js ''Could not connect to peer bob''))) dialled)
       = Some mic
   \<and> analyserRef (step (PeerError (ErrorInstance (js ''Could not connect to peer bob''))) dialled)
       = Some \<lparr>node_id = 1, fftSize = 256\<rparr>
   \<and> audioContextRef (step (PeerError (ErrorInstance (js ''Could not connect to peer bob''))) dialled)
       = Some 0
   \<and> animationFrameRef (step (PeerError (ErrorInstance (js ''Could not connect to peer bob''))) dialled)
       = Some 1
   \<and> trace (step (PeerError (ErrorInstance (js ''Could not connect to peer bob''))) dialled)
       = trace dialled @ [UpdateStatus Error (js ''Could not connect to peer bob'')]
   \<and> \<not> isReady (step (PeerError (ErrorInstance (js ''Could not connect to peer bob''))) dialled)
   \<and> \<not> isCallActive
         (step (PeerError (ErrorInstance (js ''Could not connect to peer bob''))) dialled)
   \<and> status (step (CallError 2 NotAnError) dialled) = Error
   \<and> statusMessage (step (CallError 2 NotAnError) dialled) = js ''Call error occurred.''
   \<and> callRef (step (CallError 2 NotAnError) dialled) = None
   \<and> localStreamRef (step (CallError 2 NotAnError) dialled) = None
   \<and> trace (step (CallError 2 NotAnError) dialled)
       = trace dialled @ [UpdateStatus Error (js ''Call error occurred.''), Close 2, StopTrack 1,
                          StopTrack 2, CloseContext 0, Disconnect 1, CancelAnimationFrame 1]
   \<and> callRef answered = Some inbound \<and> conn_id inbound = 9 \<and> 9 \<in> openCalls answered
   \<and> listenersOf 9 answered = [inbound]
   \<and> status (step (CallError 9 (ErrorInstance (js ''Negotiation of connection to alice failed.'')))
                answered) = Ready
   \<and> statusMessage (step (CallError 9 (ErrorInstance (js ''Negotiation of connection to alice failed.'')))
                       answered) = js ''Call ended.''
   \<and> trace (step (CallError 9 (ErrorInstance (js ''Negotiation of connection to alice failed.'')))
               answered)
       = trace answered
         @ [UpdateStatus Error (js ''Negotiation of connection to alice failed.''), Close 9,
            UpdateStatus Ready (js ''Call ended.''), Close 9, StopTrack 1, StopTrack 2,
            CloseContext 0, Disconnect 1, CancelAnimationFrame 1]"
proof -
  have runs: "handlerRuns dialled = 0" "handlerRuns answered = Suc 0"
    by (simp_all add: handlerRuns_def dialled_eq answered_eq listenersOf_def inbound_def)
  have listeners: "listenersOf 2 dialled = [\<lparr>conn_id = 2, peer = js ''bob''\<rparr>]"
    "listenersOf 9 answered = [inbound]"
    by (simp_all add: listenersOf_def dialled_eq answered_eq inbound_def)
  have effects: "teardownEffects dialled = [Close 2, StopTrack 1, StopTrack 2, CloseContext 0,
      Disconnect 1, CancelAnimationFrame 1]"
    "teardownEffects answered = [Close 9, UpdateStatus Ready (js ''Call ended.''), Close 9,
      StopTrack 1, StopTrack 2, CloseContext 0, Disconnect 1, CancelAnimationFrame 1]"
    unfolding teardownEffects_def closingEffects_def runs
    by (simp_all add: releases_def closeEffects_def cancelEffects_def dialled_eq answered_eq
          mic_def inbound_def)
  have peer: "peerListening dialled" "callRef answered = Some inbound" "conn_id inbound = 9"
    "9 \<in> openCalls answered"
    by (simp_all add: dialled_eq answered_eq inbound_def)
  show ?thesis
    by (simp add: peer listeners onCallError_fields runs effects onPeerError_def updateStatus_def
          emit_def isReady_def isCallActive_def)
       (simp add: dialled_eq)
qed

section \<open>Placing and answering calls\<close>

lemma trim_blank:
  assumes "\<forall>c \<in> set v. isWhiteSpace c"
  shows "trim v = []"
proof -
  from assms have "dropWhile isWhiteSpace v = []" by (simp add: dropWhile_eq_Nil_conv)
  then show ?thesis by (simp only: trim_def rev.simps dropWhile.simps)
qed

lemma trim_eq_Nil_iff: "trim v = [] \<longleftrightarrow> (\<forall>c \<in> set v. isWhiteSpace c)"
proof
  assume "trim v = []"
  then have "dropWhile isWhiteSpace (rev (dropWhile isWhiteSpace v)) = []"
    by (simp add: trim_def)
  then have "\<forall>c \<in> set (dropWhile isWhiteSpace v). isWhiteSpace c"
    by (simp add: dropWhile_eq_Nil_conv)
  then have "dropWhile isWhiteSpace v = []"
    using hd_dropWhile [of isWhiteSpace v] hd_in_set [of "dropWhile isWhiteSpace v"] by blast
  then show "\<forall>c \<in> set v. isWhiteSpace c"
    by (simp add: dropWhile_eq_Nil_conv)
qed (rule trim_blank)

lemma trim_ends:
  assumes "trim v \<noteq> []"
  shows "\<not> isWhiteSpace (hd (trim v))" and "\<not> isWhiteSpace (last (trim v))"
proof -
  let ?d = "dropWhile isWhiteSpace v"
  let ?r = "dropWhile isWhiteSpace (rev ?d)"
  from assms have r: "?r \<noteq> []" by (simp add: trim_def)
  then have "\<not> isWhiteSpace (hd ?r)" by (rule hd_dropWhile)
  with r show "\<not> isWhiteSpace (last (trim v))" by (simp add: trim_def last_rev)
  have d: "?d \<noteq> []"
  proof
    assume "?d = []"
    then have "?r = []" by (simp only: rev.simps dropWhile.simps)
    with r show False by simp
  qed
  then have hd_d: "\<not> isWhiteSpace (hd ?d)" by (rule hd_dropWhile)
  have "rev ?d = takeWhile isWhiteSpace (rev ?d) @ ?r" by simp
  then have "?d = rev ?r @ rev (takeWhile isWhiteSpace (rev ?d))"
    by (metis rev_append rev_rev_ident)
  with r have "hd ?d = hd (rev ?r)" by (metis hd_append2 rev_is_Nil_conv)
  with hd_d show "\<not> isWhiteSpace (hd (trim v))" by (simp add: trim_def)
qed

lemma trim_decompose:
  "\<exists>l r. v = l @ trim v @ r \<and> (\<forall>c \<in> set l. isWhiteSpace c) \<and> (\<forall>c \<in> set r. isWhiteSpace c)"
proof -
  let ?d = "dropWhile isWhiteSpace v"
  let ?l = "takeWhile isWhiteSpace v"
  let ?r = "rev (takeWhile isWhiteSpace (rev ?d))"
  have "rev ?d = takeWhile isWhiteSpace (rev ?d) @ dropWhile isWhiteSpace (rev ?d)" by simp
  then have "?d = trim v @ ?r"
    unfolding trim_def by (metis rev_append rev_rev_ident)
  then have "v = ?l @ trim v @ ?r" by (metis takeWhile_dropWhile_id)
  moreover have "\<forall>c \<in> set ?l. isWhiteSpace c" by (auto dest: set_takeWhileD)
  moreover have "\<forall>c \<in> set ?r. isWhiteSpace c" by (auto dest: set_takeWhileD)
  ultimately show ?thesis by blast
qed

lemma tick_eq:
  "tick analyser s =
     s\<lparr>micLevel := volume (getByteFrequencyData analyser s),
       rafCounter := Suc (rafCounter s),
       frameCallbacks := frameCallbacks s @ [(Suc (rafCounter s), analyser)],
       trace := trace s @ [RequestAnimationFrame (Suc (rafCounter s))],
       animationFrameRef := Some (Suc (rafCounter s))\<rparr>"
  by (simp add: tick_def requestAnimationFrame_def emit_def Let_def)

lemma getByteFrequencyData_cong:
  "frequencyData s' = frequencyData s \<Longrightarrow> getByteFrequencyData a s' = getByteFrequencyData a s"
  by (simp add: getByteFrequencyData_def)

lemma observeMicLevel_trace: "trace (observeMicLevel s) = trace s @ micEffects s"
  by (cases "analyserRef s")
     (simp_all add: observeMicLevel_def micEffects_def tick_eq cancelPendingFrame_eq)

lemma observeMicLevel_fields:
  "status (observeMicLevel s) = status s" "statusMessage (observeMicLevel s) = statusMessage s"
  "peerRef (observeMicLevel s) = peerRef s" "callRef (observeMicLevel s) = callRef s"
  "localStreamRef (observeMicLevel s) = localStreamRef s"
  "allocated (observeMicLevel s) = allocated s"
  "callListeners (observeMicLevel s) = callListeners s"
  "awaiting (observeMicLevel s) = awaiting s"
  "analyserRef (observeMicLevel s) = analyserRef s"
  "audioContextRef (observeMicLevel s) = audioContextRef s"
  "openCalls (observeMicLevel s) = openCalls s"
  by (cases "analyserRef s"; simp add: observeMicLevel_def tick_eq cancelPendingFrame_eq)+

lemma closeCurrentCall_fields:
  "trace (closeCurrentCall s) = trace s @ closingEffects s"
  "callListeners (closeCurrentCall s) = callListeners s"
  "peerRef (closeCurrentCall s) = peerRef s"
  "allocated (closeCurrentCall s) = allocated s"
  "awaiting (closeCurrentCall s) = awaiting s"
  "status (closeCurrentCall s) = (if handlerRuns s = 0 then status s else Ready)"
  "statusMessage (closeCurrentCall s)
     = (if handlerRuns s = 0 then statusMessage s else js ''Call ended.'')"
  "callRef (closeCurrentCall s) = (if handlerRuns s = 0 then callRef s else None)"
  "localStreamRef (closeCurrentCall s) = (if handlerRuns s = 0 then localStreamRef s else None)"
  "openCalls (closeCurrentCall s) = openCalls s - heldCalls s"
  by (simp_all add: closeCurrentCall_eq destroyCall_eq)

lemma registerCallHandlers_eq:
  "registerCallHandlers call s =
     (closeCurrentCall s)
       \<lparr>callRef := Some call, callListeners := callListeners s @ [call],
        trace := trace s @ closingEffects s @ registrations (conn_id call)\<rparr>"
  by (simp add: registerCallHandlers_def closeCurrentCall_fields emit_def registrations_def Let_def)

lemma registerCallHandlers_fields:
  "trace (registerCallHandlers call s) = trace s @ closingEffects s @ registrations (conn_id call)"
  "callRef (registerCallHandlers call s) = Some call"
  "callListeners (registerCallHandlers call s) = callListeners s @ [call]"
  "status (registerCallHandlers call s) = (if handlerRuns s = 0 then status s else Ready)"
  "statusMessage (registerCallHandlers call s)
     = (if handlerRuns s = 0 then statusMessage s else js ''Call ended.'')"
  "peerRef (registerCallHandlers call s) = peerRef s"
  "awaiting (registerCallHandlers call s) = awaiting s"
  by (simp_all add: registerCallHandlers_eq closeCurrentCall_fields)

lemma ensureLocalStream_acquired_eq:
  "ensureLocalStream_acquired stream s =
     (if noAudioContext s then (Inl (ErrorInstance unsupportedMessage), stored stream s)
      else (Inr stream, analysed stream s))"
  by (cases "localAudioRef s"; cases "audioContextRef s"; cases "audioContextCtor s"; cases s;
      simp add: ensureLocalStream_acquired_def stored_def analysed_def noAudioContext_def
        unsupportedMessage_def)

lemma ensureLocalStream_settled_eq:
  "ensureLocalStream_settled gum s =
     (case gum of
        Inl error \<Rightarrow> (Inl error, updateStatus Error (deniedMessage error) s)
      | Inr stream \<Rightarrow>
          (if noAudioContext s
           then (Inl (ErrorInstance unsupportedMessage),
                 updateStatus Error unsupportedMessage (stored stream s))
           else (Inr stream, analysed stream s)))"
  by (cases gum)
     (simp_all add: ensureLocalStream_settled_def ensureLocalStream_acquired_eq deniedMessage_def)

lemma stored_fields:
  "trace (stored stream s) = trace s" "status (stored stream s) = status s"
  "statusMessage (stored stream s) = statusMessage s" "peerRef (stored stream s) = peerRef s"
  "callRef (stored stream s) = callRef s" "callListeners (stored stream s) = callListeners s"
  "frameCallbacks (stored stream s) = frameCallbacks s"
  "animationFrameRef (stored stream s) = animationFrameRef s"
  "awaiting (stored stream s) = awaiting s" "analyserRef (stored stream s) = analyserRef s"
  "micLevel (stored stream s) = micLevel s" "rafCounter (stored stream s) = rafCounter s"
  "frequencyData (stored stream s) = frequencyData s"
  "openCalls (stored stream s) = openCalls s"
  by (simp_all add: stored_def)

lemma analysed_fields:
  "trace (analysed stream s) = trace s" "status (analysed stream s) = status s"
  "statusMessage (analysed stream s) = statusMessage s" "peerRef (analysed stream s) = peerRef s"
  "callRef (analysed stream s) = callRef s" "callListeners (analysed stream s) = callListeners s"
  "frameCallbacks (analysed stream s) = frameCallbacks s"
  "animationFrameRef (analysed stream s) = animationFrameRef s"
  "awaiting (analysed stream s) = awaiting s"
  "micLevel (analysed stream s) = micLevel s" "rafCounter (analysed stream s) = rafCounter s"
  "frequencyData (analysed stream s) = frequencyData s"
  "\<exists>n. analyserRef (analysed stream s) = Some \<lparr>node_id = n, fftSize = 256\<rparr>"
  "openCalls (analysed stream s) = openCalls s"
  by (simp_all add: analysed_def stored_def)

lemma updateStatus_fields:
  "trace (updateStatus n m s) = trace s @ [UpdateStatus n m]" "status (updateStatus n m s) = n"
  "statusMessage (updateStatus n m s) = m" "peerRef (updateStatus n m s) = peerRef s"
  "callRef (updateStatus n m s) = callRef s" "callListeners (updateStatus n m s) = callListeners s"
  "frameCallbacks (updateStatus n m s) = frameCallbacks s"
  "animationFrameRef (updateStatus n m s) = animationFrameRef s"
  "awaiting (updateStatus n m s) = awaiting s" "analyserRef (updateStatus n m s) = analyserRef s"
  "micLevel (updateStatus n m s) = micLevel s" "rafCounter (updateStatus n m s) = rafCounter s"
  "localStreamRef (updateStatus n m s) = localStreamRef s"
  "audioContextRef (updateStatus n m s) = audioContextRef s"
  "allocated (updateStatus n m s) = allocated s"
  "frequencyData (updateStatus n m s) = frequencyData s"
  "openCalls (updateStatus n m s) = openCalls s"
  by (simp_all add: updateStatus_def emit_def)

text \<open>
  The state in which \<open>placeCall\<close> reaches \<open>registerCallHandlers\<close>, and the one in which
  the \<open>call\<close> handler does: what closing the held call does there is what it does after
  \<open>observeMicLevel\<close>, and after \<open>answer\<close>.
\<close>

lemma dialling_cong:
  "handlerRuns (emit es ((updateStatus nextStatus message (observeMicLevel s))\<lparr>allocated := n\<rparr>))
     = handlerRuns s"
  "closingEffects (emit es ((updateStatus nextStatus message (observeMicLevel s))\<lparr>allocated := n\<rparr>))
     = closingEffects (observeMicLevel s)"
  by (rule handlerRuns_cong closingEffects_cong;
      simp add: emit_def updateStatus_def observeMicLevel_fields)+

lemma placeCall_continue_registers:
  "peerRef s = Some p \<Longrightarrow>
   placeCall_continue rid (Inr stream) s =
     registerCallHandlers \<lparr>conn_id = allocated s, peer = trim rid\<rparr>
       (emit [Call (trim rid) stream]
          ((updateStatus Calling (js ''Calling '' @ rid @ [ellipsis]) (observeMicLevel s))
             \<lparr>allocated := Suc (allocated s)\<rparr>))"
  by (simp add: placeCall_continue_def Let_def updateStatus_fields observeMicLevel_fields)

lemma placeCall_continue_dials:
  assumes "peerRef s \<noteq> None"
  shows "trace (placeCall_continue rid (Inr stream) s) =
           trace s @ micEffects s
           @ [UpdateStatus Calling (js ''Calling '' @ rid @ [ellipsis]), Call (trim rid) stream]
           @ closingEffects (observeMicLevel s) @ registrations (allocated s)"
    and "status (placeCall_continue rid (Inr stream) s)
           = (if handlerRuns s = 0 then Calling else Ready)"
    and "statusMessage (placeCall_continue rid (Inr stream) s)
           = (if handlerRuns s = 0 then js ''Calling '' @ rid @ [ellipsis] else js ''Call ended.'')"
    and "callRef (placeCall_continue rid (Inr stream) s) = Some \<lparr>conn_id = allocated s, peer = trim rid\<rparr>"
proof -
  from assms obtain p where p: "peerRef s = Some p" by auto
  show "trace (placeCall_continue rid (Inr stream) s) =
           trace s @ micEffects s
           @ [UpdateStatus Calling (js ''Calling '' @ rid @ [ellipsis]), Call (trim rid) stream]
           @ closingEffects (observeMicLevel s) @ registrations (allocated s)"
    and "status (placeCall_continue rid (Inr stream) s)
           = (if handlerRuns s = 0 then Calling else Ready)"
    and "statusMessage (placeCall_continue rid (Inr stream) s)
           = (if handlerRuns s = 0 then js ''Calling '' @ rid @ [ellipsis] else js ''Call ended.'')"
    and "callRef (placeCall_continue rid (Inr stream) s) = Some \<lparr>conn_id = allocated s, peer = trim rid\<rparr>"
    unfolding placeCall_continue_registers [OF p] registerCallHandlers_fields dialling_cong
    by (simp_all add: emit_def updateStatus_fields observeMicLevel_trace)
qed

text \<open>What a settled microphone request adds to the trace, and what it leaves alone.\<close>

lemma ensureLocalStream_settled_fields:
  "(trace (snd (ensureLocalStream_settled gum s))
     = trace s @ failureEffects (fst (ensureLocalStream_settled gum s)))
   \<and> (peerRef (snd (ensureLocalStream_settled gum s)) = peerRef s)
   \<and> (callRef (snd (ensureLocalStream_settled gum s)) = callRef s)
   \<and> (callListeners (snd (ensureLocalStream_settled gum s)) = callListeners s)
   \<and> (frameCallbacks (snd (ensureLocalStream_settled gum s)) = frameCallbacks s)
   \<and> (animationFrameRef (snd (ensureLocalStream_settled gum s)) = animationFrameRef s)
   \<and> (awaiting (snd (ensureLocalStream_settled gum s)) = awaiting s)
   \<and> (openCalls (snd (ensureLocalStream_settled gum s)) = openCalls s)
   \<and> (status (snd (ensureLocalStream_settled gum s))
     = (case fst (ensureLocalStream_settled gum s) of Inl error \<Rightarrow> Error | Inr stream \<Rightarrow> status s))"
  by (cases gum; cases "noAudioContext s";
      simp add: ensureLocalStream_settled_eq stored_fields analysed_fields updateStatus_fields
        failureEffects_def deniedMessage_def unsupportedMessage_def)

lemma ensureLocalStream_fields:
  "(trace (snd (ensureLocalStream gum s))
     = trace s @ acquisitionEffects s (fst (ensureLocalStream gum s)))
   \<and> (peerRef (snd (ensureLocalStream gum s)) = peerRef s)
   \<and> (callRef (snd (ensureLocalStream gum s)) = callRef s)
   \<and> (callListeners (snd (ensureLocalStream gum s)) = callListeners s)
   \<and> (frameCallbacks (snd (ensureLocalStream gum s)) = frameCallbacks s)
   \<and> (animationFrameRef (snd (ensureLocalStream gum s)) = animationFrameRef s)
   \<and> (awaiting (snd (ensureLocalStream gum s)) = awaiting s)
   \<and> (openCalls (snd (ensureLocalStream gum s)) = openCalls s)
   \<and> (status (snd (ensureLocalStream gum s))
     = (case fst (ensureLocalStream gum s) of Inl error \<Rightarrow> Error | Inr stream \<Rightarrow> status s))"
  by (cases "localStreamRef s";
      simp add: ensureLocalStream_def ensureLocalStream_settled_fields acquisitionEffects_def
        emit_def split: sum.splits)

lemma ensureLocalStream_fails:
  "localStreamRef s = None \<Longrightarrow> fst (ensureLocalStream (Inl error) s) = Inl error"
  "localStreamRef s = None \<Longrightarrow> noAudioContext s \<Longrightarrow>
     fst (ensureLocalStream (Inr stream) s) = Inl (ErrorInstance unsupportedMessage)"
  by (simp_all add: ensureLocalStream_def ensureLocalStream_settled_eq noAudioContext_def emit_def)

lemma ensureLocalStream_succeeds:
  "localStreamRef s = Some held \<Longrightarrow> fst (ensureLocalStream gum s) = Inr held"
  "localStreamRef s = None \<Longrightarrow> \<not> noAudioContext s \<Longrightarrow>
     fst (ensureLocalStream (Inr stream) s) = Inr stream"
  by (simp_all add: ensureLocalStream_def ensureLocalStream_settled_eq noAudioContext_def emit_def)

lemma placeCall_blank:
  "trim (remoteId s) = [] \<Longrightarrow>
     placeCall gum s = updateStatus Error (js ''Enter a peer ID before calling.'') s"
  "trim (remoteId s) = [] \<Longrightarrow>
     placeCall_begin s = updateStatus Error (js ''Enter a peer ID before calling.'') s"
  by (simp_all add: placeCall_def placeCall_begin_def)

text \<open>
  C3. When the remote identifier is empty or consists of white space only, \<open>placeCall\<close>
  sets the status to \<open>error\<close> with a message and does nothing else: the trace gains the
  status update alone, so the transport's call operation is not invoked and the microphone
  is not requested, and the call handle, the listeners, the stream, the audio context,
  the analyser and the frame loop are as before. The click suspends nothing.
\<close>

theorem placeCall_blank_identifier:
  "(\<forall>c \<in> set (remoteId s). isWhiteSpace c) \<longrightarrow>
     status (placeCall gum s) = Error
     \<and> statusMessage (placeCall gum s) = js ''Enter a peer ID before calling.''
     \<and> trace (placeCall gum s)
         = trace s @ [UpdateStatus Error (js ''Enter a peer ID before calling.'')]
     \<and> callRef (placeCall gum s) = callRef s
     \<and> callListeners (placeCall gum s) = callListeners s
     \<and> localStreamRef (placeCall gum s) = localStreamRef s
     \<and> audioContextRef (placeCall gum s) = audioContextRef s
     \<and> analyserRef (placeCall gum s) = analyserRef s
     \<and> animationFrameRef (placeCall gum s) = animationFrameRef s
     \<and> frameCallbacks (placeCall gum s) = frameCallbacks s
     \<and> micLevel (placeCall gum s) = micLevel s
     \<and> allocated (placeCall gum s) = allocated s
     \<and> awaiting (placeCall_begin s) = awaiting s
     \<and> placeCall_begin s = placeCall gum s
     \<and> updateStatus Error (js ''Enter a peer ID before calling.'') s = placeCall gum s"
proof
  assume "\<forall>c \<in> set (remoteId s). isWhiteSpace c"
  then have "trim (remoteId s) = []" by (rule trim_blank)
  then show "status (placeCall gum s) = Error
     \<and> statusMessage (placeCall gum s) = js ''Enter a peer ID before calling.''
     \<and> trace (placeCall gum s)
         = trace s @ [UpdateStatus Error (js ''Enter a peer ID before calling.'')]
     \<and> callRef (placeCall gum s) = callRef s
     \<and> callListeners (placeCall gum s) = callListeners s
     \<and> localStreamRef (placeCall gum s) = localStreamRef s
     \<and> audioContextRef (placeCall gum s) = audioContextRef s
     \<and> analyserRef (placeCall gum s) = analyserRef s
     \<and> animationFrameRef (placeCall gum s) = animationFrameRef s
     \<and> frameCallbacks (placeCall gum s) = frameCallbacks s
     \<and> micLevel (placeCall gum s) = micLevel s
     \<and> allocated (placeCall gum s) = allocated s
     \<and> awaiting (placeCall_begin s) = awaiting s
     \<and> placeCall_begin s = placeCall gum s
     \<and> updateStatus Error (js ''Enter a peer ID before calling.'') s = placeCall gum s"
    by (simp add: placeCall_blank updateStatus_fields)
qed

text \<open>In \<open>blank\<close> the identifier is a space, a tab, a no-break space and an ideographic space.\<close>

theorem placeCall_blank_identifier_witness:
  "remoteId blank = [0x20, 0x9, 0xA0, 0x3000]
   \<and> isWhiteSpace 0x20 \<and> isWhiteSpace 0x9 \<and> isWhiteSpace 0xA0 \<and> isWhiteSpace 0x3000
   \<and> status (placeCall (Inr mic) blank) = Error
   \<and> trace (placeCall (Inr mic) blank)
       = [UpdateStatus Error (js ''Enter a peer ID before calling.'')]
   \<and> callRef (placeCall (Inr mic) blank) = None
   \<and> localStreamRef (placeCall (Inr mic) blank) = None
   \<and> step ClickCall blank = placeCall (Inr mic) blank"
proof -
  have ws: "\<forall>c \<in> set (remoteId blank). isWhiteSpace c"
    by (simp add: blank_eq isWhiteSpace_def)
  have init: "remoteId blank = [0x20, 0x9, 0xA0, 0x3000]" "trace blank = []" "callRef blank = None"
    "localStreamRef blank = None"
    by (simp_all add: blank_eq init_def)
  from placeCall_blank_identifier [of blank "Inr mic", THEN mp, OF ws] ws init
  show ?thesis by simp
qed

lemma placeCall_continue_trace:
  "trace (placeCall_continue rid r s) = trace s @ dialEffects rid r s"
proof (cases r)
  case (Inl error)
  then show ?thesis
    by (simp add: placeCall_continue_def dialEffects_def updateStatus_fields)
next
  case (Inr stream)
  show ?thesis
  proof (cases "peerRef s")
    case None
    with Inr show ?thesis
      by (simp add: placeCall_continue_def dialEffects_def updateStatus_fields
            observeMicLevel_trace observeMicLevel_fields Let_def)
  next
    case (Some p)
    then have "peerRef s \<noteq> None" by simp
    from placeCall_continue_dials(1) [OF this] Inr Some show ?thesis
      by (simp add: dialEffects_def)
  qed
qed

lemma placeCall_continue_status:
  "status (placeCall_continue rid r s) = Calling \<or> status (placeCall_continue rid r s) = Error
   \<or> status (placeCall_continue rid r s) = Ready"
proof (cases r)
  case (Inl error)
  then show ?thesis
    by (simp add: placeCall_continue_def updateStatus_fields)
next
  case (Inr stream)
  show ?thesis
  proof (cases "peerRef s")
    case None
    with Inr show ?thesis
      by (simp add: placeCall_continue_def updateStatus_fields observeMicLevel_fields Let_def)
  next
    case (Some p)
    then have "peerRef s \<noteq> None" by simp
    from placeCall_continue_dials(2) [OF this] Inr show ?thesis
      by simp
  qed
qed

lemma answer_fields:
  "trace (answer call stream s) = trace s @ [Answer (conn_id call) stream]"
  "status (answer call stream s) = status s" "statusMessage (answer call stream s) = statusMessage s"
  "callRef (answer call stream s) = callRef s" "callListeners (answer call stream s) = callListeners s"
  "peerRef (answer call stream s) = peerRef s" "awaiting (answer call stream s) = awaiting s"
  "frameCallbacks (answer call stream s) = frameCallbacks s"
  "animationFrameRef (answer call stream s) = animationFrameRef s"
  "analyserRef (answer call stream s) = analyserRef s" "micLevel (answer call stream s) = micLevel s"
  by (simp_all add: answer_def emit_def)

lemma onPeerCall_continue_trace:
  "trace (onPeerCall_continue incomingCall r s) = trace s @ answerEffects incomingCall r s"
  by (cases r)
     (simp_all add: onPeerCall_continue_def answerEffects_def registerCallHandlers_fields
        updateStatus_fields answer_fields observeMicLevel_trace)

lemma onPeerCall_continue_fields:
  "status (onPeerCall_continue incomingCall r s)
     = (case r of
          Inl error \<Rightarrow> Error
        | Inr stream \<Rightarrow>
            if handlerRuns (answer incomingCall stream (observeMicLevel s)) = 0 then status s
            else Ready)"
  "statusMessage (onPeerCall_continue incomingCall (Inl error) s)
     = messageOr error (js ''Unable to answer incoming call.'')"
  "callRef (onPeerCall_continue incomingCall (Inl error) s) = callRef s"
  "callListeners (onPeerCall_continue incomingCall (Inl error) s) = callListeners s"
  by (cases r)
     (simp_all add: onPeerCall_continue_def registerCallHandlers_fields
        updateStatus_fields answer_fields observeMicLevel_fields)

lemma frame_effects_only:
  "e \<in> set (micEffects s) \<Longrightarrow> (\<exists>h. e = CancelAnimationFrame h \<or> e = RequestAnimationFrame h)"
  by (auto simp: micEffects_def cancelEffects_def split: option.splits if_splits)

lemma no_Call:
  "Call ident st \<notin> set (micEffects s)" "Call ident st \<notin> set (closingEffects s)"
  "Call ident st \<notin> set (registrations h)" "Call ident st \<notin> set (acquisitionEffects s r)"
  using closingEffects_kinds [of "Call ident st" s]
  by (auto simp: micEffects_def cancelEffects_def registrations_def
        acquisitionEffects_def failureEffects_def split: option.splits if_splits sum.splits)

lemma no_Answer:
  "Answer h st \<notin> set (micEffects s)" "Answer h st \<notin> set (closingEffects s)"
  "Answer h st \<notin> set (registrations h')" "Answer h st \<notin> set (acquisitionEffects s r)"
  "Answer h st \<notin> set (failureEffects r)"
  using closingEffects_kinds [of "Answer h st" s]
  by (auto simp: micEffects_def cancelEffects_def registrations_def
        acquisitionEffects_def failureEffects_def split: option.splits if_splits sum.splits)

lemma Call_in_dialEffects:
  "Call ident st \<in> set (dialEffects rid r s) \<Longrightarrow> ident = trim rid \<and> r = Inr st"
  by (cases r; cases "peerRef s") (auto simp: dialEffects_def no_Call)

lemma Answer_in_answerEffects:
  "Answer h st \<in> set (answerEffects incomingCall r s) \<Longrightarrow> h = conn_id incomingCall \<and> r = Inr st"
  by (cases r) (auto simp: answerEffects_def no_Answer)

lemma placeCall_trace:
  "trace (placeCall gum s) = trace s @
     (if trim (remoteId s) = [] then [UpdateStatus Error (js ''Enter a peer ID before calling.'')]
      else if peerRef s = None then [UpdateStatus Error (js ''Agent not ready yet.'')]
      else acquisitionEffects s (fst (ensureLocalStream gum s))
           @ dialEffects (remoteId s) (fst (ensureLocalStream gum s)) (snd (ensureLocalStream gum s)))"
  by (simp add: placeCall_def updateStatus_fields placeCall_continue_trace ensureLocalStream_fields
        case_prod_beta)

lemma onPeerCall_trace:
  "trace (onPeerCall gum incomingCall s) = trace s @
     UpdateStatus Incoming (js ''Call incoming from '' @ peer incomingCall @ js ''.'')
     # acquisitionEffects s
         (fst (ensureLocalStream gum
            (updateStatus Incoming (js ''Call incoming from '' @ peer incomingCall @ js ''.'') s)))
     @ answerEffects incomingCall
         (fst (ensureLocalStream gum
            (updateStatus Incoming (js ''Call incoming from '' @ peer incomingCall @ js ''.'') s)))
         (snd (ensureLocalStream gum
            (updateStatus Incoming (js ''Call incoming from '' @ peer incomingCall @ js ''.'') s)))"
  by (simp add: onPeerCall_def Let_def updateStatus_fields onPeerCall_continue_trace
        ensureLocalStream_fields acquisitionEffects_def case_prod_beta)

lemma resume_eq:
  "k \<in># awaiting s \<Longrightarrow>
   resume k gum s =
     (case k of
        PlaceCallK rid \<Rightarrow>
          placeCall_continue rid
            (fst (ensureLocalStream_settled gum (s\<lparr>awaiting := awaiting s - {#k#}\<rparr>)))
            (snd (ensureLocalStream_settled gum (s\<lparr>awaiting := awaiting s - {#k#}\<rparr>)))
      | AnswerK incomingCall \<Rightarrow>
          onPeerCall_continue incomingCall
            (fst (ensureLocalStream_settled gum (s\<lparr>awaiting := awaiting s - {#k#}\<rparr>)))
            (snd (ensureLocalStream_settled gum (s\<lparr>awaiting := awaiting s - {#k#}\<rparr>))))"
  by (simp add: resume_def case_prod_beta)

lemma suspended_state: "(suspend k s)\<lparr>awaiting := awaiting (suspend k s) - {#k#}\<rparr> = emit [GetUserMedia] s"
  by (cases s) (simp add: suspend_def emit_def)

text \<open>
  The functions run without interruption are the event-driven ones with the microphone
  request settling before any other event.
\<close>

lemma placeCall_atomic:
  "placeCall gum s =
     (if trim (remoteId s) \<noteq> [] \<and> peerRef s \<noteq> None \<and> localStreamRef s = None
      then step (MediaSettled (PlaceCallK (remoteId s)) gum) (step ClickCall s)
      else step ClickCall s)"
proof (cases "trim (remoteId s) \<noteq> [] \<and> peerRef s \<noteq> None \<and> localStreamRef s = None")
  case True
  then have started: "placeCall_begin s = suspend (PlaceCallK (remoteId s)) s"
    by (auto simp: placeCall_begin_def)
  have "PlaceCallK (remoteId s) \<in># awaiting (suspend (PlaceCallK (remoteId s)) s)"
    by (simp add: suspend_def)
  from resume_eq [OF this] True show ?thesis
    by (auto simp: started suspended_state placeCall_def ensureLocalStream_def case_prod_beta)
next
  case False
  then show ?thesis
    by (cases "localStreamRef s")
       (auto simp: placeCall_def placeCall_begin_def ensureLocalStream_def)
qed

lemma onPeerCall_atomic:
  "onPeerCall gum incomingCall s =
     (if localStreamRef s = None
      then resume (AnswerK incomingCall) gum (onPeerCall_begin incomingCall s)
      else onPeerCall_begin incomingCall s)"
proof (cases "localStreamRef s")
  case None
  let ?s1 = "updateStatus Incoming (js ''Call incoming from '' @ peer incomingCall @ js ''.'') s"
  from None have started: "onPeerCall_begin incomingCall s = suspend (AnswerK incomingCall) ?s1"
    by (simp add: onPeerCall_begin_def updateStatus_fields Let_def)
  have "AnswerK incomingCall \<in># awaiting (suspend (AnswerK incomingCall) ?s1)"
    by (simp add: suspend_def)
  from resume_eq [OF this] None show ?thesis
    by (simp add: started suspended_state onPeerCall_def ensureLocalStream_def updateStatus_fields
          Let_def case_prod_beta)
next
  case (Some held)
  then show ?thesis
    by (simp add: onPeerCall_def onPeerCall_begin_def ensureLocalStream_def updateStatus_fields
          Let_def)
qed

lemma typed_acquired:
  "ensureLocalStream (Inr mic) typed =
     (Inr mic,
      typed\<lparr>trace := [GetUserMedia], localStreamRef := Some mic, localAudioRef := Some (Some mic),
             audioContextRef := Some 0, analyserRef := Some \<lparr>node_id = 1, fftSize = 256\<rparr>,
             allocated := 2\<rparr>)"
  by (simp add: typed_eq init_def ensureLocalStream_def ensureLocalStream_settled_eq emit_def
        noAudioContext_def analysed_def stored_def)

lemma fold_handlers_status:
  assumes "\<And>x t. status (f x t) = c"
  shows "status (fold f xs s) = (if xs = [] then status s else c)"
  by (cases xs rule: rev_cases) (simp_all add: assms)

lemma onPeerCall_begin_status:
  "status (onPeerCall_begin incomingCall s) = Incoming
   \<or> status (onPeerCall_begin incomingCall s) = Ready"
  by (cases "localStreamRef s")
     (simp_all add: onPeerCall_begin_def Let_def updateStatus_fields onPeerCall_continue_fields
        observeMicLevel_fields suspend_def emit_def)

lemma placeCall_begin_status:
  "status (placeCall_begin s) = Calling \<or> status (placeCall_begin s) = Error
   \<or> status (placeCall_begin s) = Ready \<or> status (placeCall_begin s) = status s"
  using placeCall_continue_status [of "remoteId s" _ s]
  by (cases "localStreamRef s")
     (auto simp: placeCall_begin_def updateStatus_fields suspend_def emit_def)

lemma resume_status:
  "status (resume k gum s) = In_call \<Longrightarrow> status s = In_call"
proof (cases "k \<in># awaiting s")
  case False
  assume "status (resume k gum s) = In_call"
  with False show ?thesis by (simp add: resume_def)
next
  case True
  let ?t = "s\<lparr>awaiting := awaiting s - {#k#}\<rparr>"
  assume live: "status (resume k gum s) = In_call"
  show ?thesis
  proof (cases k)
    case (PlaceCallK rid)
    with live True placeCall_continue_status
      [of rid "fst (ensureLocalStream_settled gum ?t)" "snd (ensureLocalStream_settled gum ?t)"]
    show ?thesis by (simp add: resume_eq)
  next
    case (AnswerK incomingCall)
    with live True show ?thesis
      by (simp add: resume_eq onPeerCall_continue_fields ensureLocalStream_settled_fields
            split: sum.splits if_splits)
  qed
qed

lemma step_In_call:
  assumes "status (step ev s) = In_call"
  shows "status s = In_call \<or> (\<exists>h remoteStream. ev = CallStream h remoteStream \<and> listenersOf h s \<noteq> [])"
proof (cases ev)
  case (CallStream h remoteStream)
  with assms show ?thesis by (cases "listenersOf h s = []") simp_all
next
  case (CallClose h)
  have "status (fold (\<lambda>call. onCallClose) (listenersOf h s) (s\<lparr>openCalls := openCalls s - {h}\<rparr>))
          = (if listenersOf h s = [] then status s else Ready)"
    by (subst fold_handlers_status [where c = Ready])
       (simp_all add: onCallClose_def destroyCall_eq updateStatus_fields)
  with assms CallClose show ?thesis by (simp split: if_splits)
next
  case (CallError h error)
  show ?thesis
  proof (cases "listenersOf h s = []")
    case True
    with assms CallError show ?thesis by simp
  next
    case False
    then have "status (fold (\<lambda>call. onCallError error) (listenersOf h s) s) \<noteq> In_call"
      by (rule fold_last_wins) (simp add: onCallError_fields)
    with assms CallError show ?thesis by simp
  qed
next
  case ClickCall
  with assms placeCall_begin_status [of s] show ?thesis by auto
next
  case (MediaSettled k gum)
  with assms show ?thesis by (simp add: resume_status)
next
  case (PeerCall incomingCall)
  with assms onPeerCall_begin_status [of incomingCall s] show ?thesis
    by (auto split: if_splits)
next
  case (AnimationFrame handle)
  with assms show ?thesis
    by (simp add: frameFires_def tick_eq split: option.splits)
next
  case Unmount
  with assms show ?thesis
    by (cases "peerRef s")
       (simp_all add: cleanup_def destroyCall_eq emit_def Let_def split: if_splits)
qed (use assms in \<open>simp_all add: onPeerOpen_def onPeerDisconnected_def onPeerError_def endCall_def
       updateStatus_fields emit_def split: if_splits\<close>)

lemma announcedCalls_none: "\<forall>e \<in> set es. \<not> isCall e \<Longrightarrow> announcedCalls calling es"
  by (induction es arbitrary: calling) simp_all

lemma announcedCalls_append:
  "\<forall>e \<in> set es. \<not> isCall e \<Longrightarrow> es' \<noteq> [] \<Longrightarrow> \<not> isCall (hd es') \<Longrightarrow>
   announcedCalls calling (es @ es') = announcedCalls False es'"
proof (induction es arbitrary: calling)
  case Nil
  then show ?case by (cases es') simp_all
next
  case (Cons e es)
  then show ?case by simp
qed

lemma quiet_effects:
  "\<forall>e \<in> set (micEffects s). \<not> isCall e" "\<forall>e \<in> set (closingEffects s). \<not> isCall e"
  "\<forall>e \<in> set (registrations h). \<not> isCall e" "\<forall>e \<in> set (acquisitionEffects s r). \<not> isCall e"
  "\<forall>e \<in> set (failureEffects r). \<not> isCall e"
proof -
  show "\<forall>e \<in> set (closingEffects s). \<not> isCall e"
    using closingEffects_kinds [of _ s] by fastforce
qed (auto simp: micEffects_def cancelEffects_def registrations_def
        acquisitionEffects_def failureEffects_def split: option.splits if_splits sum.splits)

lemma announcedCalls_dialEffects:
  "announcedCalls False (quiet @ dialEffects rid r s)" if "\<forall>e \<in> set quiet. \<not> isCall e"
proof (cases r)
  case (Inl error)
  with that show ?thesis by (simp add: dialEffects_def announcedCalls_none)
next
  case (Inr stream)
  show ?thesis
  proof (cases "peerRef s")
    case None
    with Inr that quiet_effects(1) [of s] show ?thesis
      by (auto simp: dialEffects_def intro!: announcedCalls_none)
  next
    case (Some p)
    let ?before = "quiet @ micEffects s"
    let ?rest = "UpdateStatus Calling (js ''Calling '' @ rid @ [ellipsis])
                 # Call (trim rid) stream # closingEffects (observeMicLevel s)
                 @ registrations (allocated s)"
    from that quiet_effects(1) [of s] have "\<forall>e \<in> set ?before. \<not> isCall e" by auto
    then have "announcedCalls False (?before @ ?rest) = announcedCalls False ?rest"
      by (rule announcedCalls_append) simp_all
    moreover have "announcedCalls False
        (closingEffects (observeMicLevel s) @ registrations (allocated s))"
      using quiet_effects(2) [of "observeMicLevel s"] quiet_effects(3) [of "allocated s"]
      by (intro announcedCalls_none) auto
    ultimately show ?thesis using Inr Some by (simp add: dialEffects_def)
  qed
qed

lemma placeCall_announces:
  "announcedCalls False (drop (length (trace s)) (trace (placeCall gum s)))"
  using announcedCalls_dialEffects
    [OF quiet_effects(4), of s "fst (ensureLocalStream gum s)" "remoteId s"
       "fst (ensureLocalStream gum s)" "snd (ensureLocalStream gum s)"]
  by (simp add: placeCall_trace)

lemma resume_announces:
  "announcedCalls False
     (drop (length (trace s)) (trace (step (MediaSettled (PlaceCallK rid) gum) s)))"
proof (cases "PlaceCallK rid \<in># awaiting s")
  case True
  let ?t = "s\<lparr>awaiting := awaiting s - {#PlaceCallK rid#}\<rparr>"
  from announcedCalls_dialEffects
    [OF quiet_effects(5), of "fst (ensureLocalStream_settled gum ?t)" rid
       "fst (ensureLocalStream_settled gum ?t)" "snd (ensureLocalStream_settled gum ?t)"]
  show ?thesis
    by (simp add: resume_eq [OF True] placeCall_continue_trace ensureLocalStream_settled_fields)
next
  case False
  then show ?thesis by (simp add: resume_def)
qed

lemma click_announces:
  "announcedCalls False (drop (length (trace s)) (trace (step ClickCall s)))"
proof (cases "trim (remoteId s) \<noteq> [] \<and> peerRef s \<noteq> None \<and> localStreamRef s = None")
  case True
  then show ?thesis by (auto simp: placeCall_begin_def suspend_def emit_def)
next
  case False
  have "placeCall (Inl NotAnError) s = step ClickCall s"
    by (simp only: placeCall_atomic [of _ s] False if_False)
  with placeCall_announces [of s "Inl NotAnError"] show ?thesis by simp
qed

lemma placeCall_success:
  assumes "trim (remoteId s) \<noteq> []" "peerRef s \<noteq> None"
    and "ensureLocalStream gum s = (Inr stream, s')"
  shows "placeCall gum s = placeCall_continue (remoteId s) (Inr stream) s'"
    and "peerRef s' \<noteq> None" and "callRef s' = callRef s"
    and "trace s' = trace s @ acquisitionEffects s (Inr stream)"
    and "handlerRuns s' = handlerRuns s"
proof -
  from assms show "placeCall gum s = placeCall_continue (remoteId s) (Inr stream) s'"
    by (auto simp: placeCall_def)
  from assms(3) have fs: "fst (ensureLocalStream gum s) = Inr stream"
    and sn: "snd (ensureLocalStream gum s) = s'" by simp_all
  from ensureLocalStream_fields [of gum s] assms(2)
  show "peerRef s' \<noteq> None" "callRef s' = callRef s"
    "trace s' = trace s @ acquisitionEffects s (Inr stream)"
    by (simp_all add: fs sn)
  from ensureLocalStream_fields [of gum s]
  show "handlerRuns s' = handlerRuns s"
    by (intro handlerRuns_cong) (simp_all add: sn)
qed

text \<open>
  C2. When the identifier is not blank, the peer exists and the stream is acquired,
  \<open>placeCall\<close> records the status \<open>calling\<close> immediately before the transport's call
  operation; before the two there are only the microphone request and the frame
  scheduling of the mic level loop, after them what closing a previous call does and the
  registrations. The status it leaves is \<open>calling\<close>, unless closing the previous call
  has run the page's close handler, which leaves \<open>ready\<close>. The same holds when the
  function resumes after other events. Whatever the outcome, every call operation that
  \<open>placeCall\<close> invokes, run at once, at the click or on resuming, comes immediately
  after the recording of the status \<open>calling\<close>. \<open>placeCall\<close> never leaves the status \<open>in-call\<close>,
  and no event of the page makes the status \<open>in-call\<close> unless it already was, except a
  stream event of a call on which handlers are registered.
\<close>

theorem placeCall_calling_before_call:
  "(trim (remoteId s) \<noteq> [] \<and> peerRef s \<noteq> None
      \<and> ensureLocalStream gum s = (Inr stream, s') \<longrightarrow>
      trace (placeCall gum s)
        = trace s @ acquisitionEffects s (Inr stream) @ micEffects s'
          @ [UpdateStatus Calling (js ''Calling '' @ remoteId s @ [ellipsis]),
             Call (trim (remoteId s)) stream]
          @ closingEffects (observeMicLevel s') @ registrations (allocated s')
      \<and> status (placeCall gum s) = (if handlerRuns s = 0 then Calling else Ready))
   \<and> (PlaceCallK rid \<in># awaiting s \<and> peerRef s \<noteq> None
      \<and> ensureLocalStream_settled gum (s\<lparr>awaiting := awaiting s - {#PlaceCallK rid#}\<rparr>)
          = (Inr stream, s') \<longrightarrow>
      trace (step (MediaSettled (PlaceCallK rid) gum) s)
        = trace s @ micEffects s'
          @ [UpdateStatus Calling (js ''Calling '' @ rid @ [ellipsis]), Call (trim rid) stream]
          @ closingEffects (observeMicLevel s') @ registrations (allocated s')
      \<and> status (step (MediaSettled (PlaceCallK rid) gum) s)
          = (if handlerRuns s = 0 then Calling else Ready))
   \<and> (\<forall>x \<in> set (acquisitionEffects s (Inr stream) @ micEffects s').
        x = GetUserMedia \<or> (\<exists>h. x = CancelAnimationFrame h \<or> x = RequestAnimationFrame h))
   \<and> (\<forall>x \<in> set (closingEffects (observeMicLevel s') @ registrations (allocated s')).
        \<not> isCall x \<and> \<not> setsCalling x)
   \<and> announcedCalls False (drop (length (trace s)) (trace (placeCall gum s)))
   \<and> announcedCalls False (drop (length (trace s)) (trace (step ClickCall s)))
   \<and> announcedCalls False
        (drop (length (trace s)) (trace (step (MediaSettled (PlaceCallK rid) gum) s)))
   \<and> status (placeCall gum s) \<noteq> In_call
   \<and> (status (step ev s) = In_call \<longrightarrow>
        status s = In_call
        \<or> (\<exists>h remoteStream. ev = CallStream h remoteStream \<and> listenersOf h s \<noteq> []))"
proof -
  have atomic: "trace (placeCall gum s)
        = trace s @ acquisitionEffects s (Inr stream) @ micEffects s'
          @ [UpdateStatus Calling (js ''Calling '' @ remoteId s @ [ellipsis]),
             Call (trim (remoteId s)) stream]
          @ closingEffects (observeMicLevel s') @ registrations (allocated s')
      \<and> status (placeCall gum s) = (if handlerRuns s = 0 then Calling else Ready)"
    if "trim (remoteId s) \<noteq> []" "peerRef s \<noteq> None" "ensureLocalStream gum s = (Inr stream, s')"
    using placeCall_success [OF that] placeCall_continue_dials [of s' "remoteId s" stream]
    by simp
  have resumed: "trace (step (MediaSettled (PlaceCallK rid) gum) s)
        = trace s @ micEffects s'
          @ [UpdateStatus Calling (js ''Calling '' @ rid @ [ellipsis]), Call (trim rid) stream]
          @ closingEffects (observeMicLevel s') @ registrations (allocated s')
      \<and> status (step (MediaSettled (PlaceCallK rid) gum) s)
          = (if handlerRuns s = 0 then Calling else Ready)"
    if k: "PlaceCallK rid \<in># awaiting s" and p: "peerRef s \<noteq> None"
      and r: "ensureLocalStream_settled gum (s\<lparr>awaiting := awaiting s - {#PlaceCallK rid#}\<rparr>)
          = (Inr stream, s')"
  proof -
    let ?t = "s\<lparr>awaiting := awaiting s - {#PlaceCallK rid#}\<rparr>"
    from r have fs: "fst (ensureLocalStream_settled gum ?t) = Inr stream"
      and sn: "snd (ensureLocalStream_settled gum ?t) = s'" by simp_all
    from ensureLocalStream_settled_fields [of gum ?t] p
    have s': "peerRef s' \<noteq> None" "trace s' = trace s"
      by (simp_all add: fs sn failureEffects_def)
    from ensureLocalStream_settled_fields [of gum ?t]
    have "handlerRuns s' = handlerRuns ?t"
      by (intro handlerRuns_cong) (simp_all add: sn)
    also have "\<dots> = handlerRuns s"
      by (rule handlerRuns_cong) simp_all
    finally have runs: "handlerRuns s' = handlerRuns s" .
    from placeCall_continue_dials [OF s'(1), of rid stream] s'(2) runs show ?thesis
      by (simp add: resume_eq [OF k] fs sn)
  qed
  have quiet: "\<forall>x \<in> set (acquisitionEffects s (Inr stream) @ micEffects s').
        x = GetUserMedia \<or> (\<exists>h. x = CancelAnimationFrame h \<or> x = RequestAnimationFrame h)"
    using frame_effects_only [of _ s']
    by (auto simp: acquisitionEffects_def failureEffects_def split: option.splits)
  have after: "\<forall>x \<in> set (closingEffects (observeMicLevel s') @ registrations (allocated s')).
        \<not> isCall x \<and> \<not> setsCalling x"
    using closingEffects_kinds [of _ "observeMicLevel s'"]
    by (fastforce simp: registrations_def)
  have never: "status (placeCall gum s) \<noteq> In_call"
    using placeCall_continue_status
      [of "remoteId s" "fst (ensureLocalStream gum s)" "snd (ensureLocalStream gum s)"]
    by (auto simp: placeCall_def updateStatus_fields case_prod_beta)
  from atomic resumed quiet after never step_In_call [of ev s] placeCall_announces [of s gum]
    click_announces [of s] resume_announces [of s rid gum]
  show ?thesis by blast
qed

lemma typed_clicked:
  "step ClickCall typed = typed\<lparr>trace := [GetUserMedia], awaiting := {#PlaceCallK bob#}\<rparr>"
  by (simp add: typed_eq init_def placeCall_begin_def suspend_def emit_def trim_bob js_def)

lemma typed_settled:
  "ensureLocalStream_settled (Inr mic) (typed\<lparr>trace := [GetUserMedia], awaiting := {#}\<rparr>) =
     (Inr mic,
      typed\<lparr>trace := [GetUserMedia], localStreamRef := Some mic, localAudioRef := Some (Some mic),
             audioContextRef := Some 0, analyserRef := Some \<lparr>node_id = 1, fftSize = 256\<rparr>,
             allocated := 2\<rparr>)"
  by (simp add: typed_eq init_def ensureLocalStream_settled_eq
        noAudioContext_def analysed_def stored_def)

text \<open>
  Placing the call of \<open>typed\<close>, at once and as two events, and the stream event in
  \<open>dialled\<close>. In \<open>answered\<close> with the identifier typed, the call is placed while the
  answered call is held and open.
\<close>

theorem placeCall_calling_before_call_witness:
  "trim (remoteId typed) \<noteq> [] \<and> peerRef typed \<noteq> None
   \<and> fst (ensureLocalStream (Inr mic) typed) = Inr mic
   \<and> trace (placeCall (Inr mic) typed)
       = [GetUserMedia, RequestAnimationFrame 1,
          UpdateStatus Calling (js ''Calling '' @ bob @ [ellipsis]), Call (js ''bob'') mic,
          OnStream 2, OnClose 2, OnError 2]
   \<and> status (placeCall (Inr mic) typed) = Calling
   \<and> PlaceCallK bob \<in># awaiting (step ClickCall typed)
   \<and> trace (step (MediaSettled (PlaceCallK bob) (Inr mic)) (step ClickCall typed))
       = [GetUserMedia, RequestAnimationFrame 1,
          UpdateStatus Calling (js ''Calling '' @ bob @ [ellipsis]), Call (js ''bob'') mic,
          OnStream 2, OnClose 2, OnError 2]
   \<and> trace (placeCall (Inr mic) (step (InputRemoteId bob) answered))
       = trace answered
         @ [CancelAnimationFrame 1, RequestAnimationFrame 2,
            UpdateStatus Calling (js ''Calling '' @ bob @ [ellipsis]), Call (js ''bob'') mic,
            Close 9, UpdateStatus Ready (js ''Call ended.''), Close 9, StopTrack 1, StopTrack 2,
            CloseContext 0, Disconnect 1, CancelAnimationFrame 2,
            OnStream 2, OnClose 2, OnError 2]
   \<and> status (placeCall (Inr mic) (step (InputRemoteId bob) answered)) = Ready
   \<and> status dialled = Calling
   \<and> status (step (CallStream 2 remote) dialled) = In_call
   \<and> listenersOf 2 dialled \<noteq> []
   \<and> announcedCalls False (trace (placeCall (Inr mic) typed))
   \<and> \<not> announcedCalls False [UpdateStatus Error (js ''Agent not ready yet.''), Call (js ''bob'') mic]
   \<and> \<not> announcedCalls False [Call (js ''bob'') mic]"
proof -
  let ?s' = "typed\<lparr>trace := [GetUserMedia], localStreamRef := Some mic,
                   localAudioRef := Some (Some mic), audioContextRef := Some 0,
                   analyserRef := Some \<lparr>node_id = 1, fftSize = 256\<rparr>, allocated := 2\<rparr>"
  let ?a = "step (InputRemoteId bob) answered"
  have pre: "trim (remoteId typed) \<noteq> []" "peerRef typed \<noteq> None"
    by (simp_all add: typed_eq trim_bob js_def)
  have quiet: "closingEffects (observeMicLevel ?s') = []" "handlerRuns typed = 0"
    "handlerRuns (step ClickCall typed) = 0"
    unfolding typed_clicked
    by (simp_all add: closingEffects_def closeEffects_def handlerRuns_def observeMicLevel_fields
          typed_eq init_def)
  have effects: "acquisitionEffects typed (Inr mic) = [GetUserMedia]"
    "micEffects ?s' = [RequestAnimationFrame 1]"
    "registrations (allocated ?s') = [OnStream 2, OnClose 2, OnError 2]" "trace typed = []"
    "trim (remoteId typed) = js ''bob''" "remoteId typed = bob"
    by (simp_all add: acquisitionEffects_def failureEffects_def micEffects_def cancelEffects_def
          registrations_def typed_eq init_def trim_bob)
  have waiting: "PlaceCallK bob \<in># awaiting (step ClickCall typed)" "peerRef (step ClickCall typed) \<noteq> None"
    unfolding typed_clicked by (simp_all add: typed_eq)
  have settled: "ensureLocalStream_settled (Inr mic)
       ((step ClickCall typed)\<lparr>awaiting := awaiting (step ClickCall typed) - {#PlaceCallK bob#}\<rparr>)
     = (Inr mic, ?s')"
    unfolding typed_clicked by (simp add: typed_settled)
  have effects': "trace (step ClickCall typed) = [GetUserMedia]"
    unfolding typed_clicked by simp
  have live: "status (step (CallStream 2 remote) dialled) = In_call" "status dialled = Calling"
    "listenersOf 2 dialled \<noteq> []"
    by (simp_all add: dialled_eq listenersOf_def onCallStream_def updateStatus_def emit_def)
  have held: "trim (remoteId ?a) \<noteq> []" "peerRef ?a \<noteq> None"
    "ensureLocalStream (Inr mic) ?a = (Inr mic, ?a)"
    by (simp_all add: answered_eq trim_bob js_def ensureLocalStream_def)
  have effects_held: "acquisitionEffects ?a (Inr mic) = []"
    "micEffects ?a = [CancelAnimationFrame 1, RequestAnimationFrame 2]"
    "handlerRuns ?a = Suc 0" "allocated ?a = 2" "trace ?a = trace answered"
    "trim (remoteId ?a) = js ''bob''" "remoteId ?a = bob"
    by (simp_all add: acquisitionEffects_def micEffects_def cancelEffects_def handlerRuns_def
          listenersOf_def answered_eq inbound_def trim_bob)
  have closing_held: "closingEffects (observeMicLevel ?a)
      = [Close 9, UpdateStatus Ready (js ''Call ended.''), Close 9, StopTrack 1, StopTrack 2,
         CloseContext 0, Disconnect 1, CancelAnimationFrame 2]"
  proof -
    have "handlerRuns (observeMicLevel ?a) = Suc 0"
      unfolding effects_held(3) [symmetric]
      by (rule handlerRuns_cong) (simp_all add: observeMicLevel_fields)
    then show ?thesis
      by (simp add: closingEffects_def closeEffects_def releases_def cancelEffects_def
            observeMicLevel_fields)
         (simp add: observeMicLevel_def tick_eq cancelPendingFrame_eq answered_eq inbound_def
            mic_def)
  qed
  from placeCall_calling_before_call [of typed "Inr mic" mic ?s'] pre typed_acquired effects quiet
  have one: "trace (placeCall (Inr mic) typed)
       = [GetUserMedia, RequestAnimationFrame 1,
          UpdateStatus Calling (js ''Calling '' @ bob @ [ellipsis]), Call (js ''bob'') mic,
          OnStream 2, OnClose 2, OnError 2]
     \<and> status (placeCall (Inr mic) typed) = Calling"
    by simp
  from placeCall_calling_before_call [of "step ClickCall typed" "Inr mic" mic ?s' bob]
    waiting settled effects effects' quiet
  have two: "trace (step (MediaSettled (PlaceCallK bob) (Inr mic)) (step ClickCall typed))
       = [GetUserMedia, RequestAnimationFrame 1,
          UpdateStatus Calling (js ''Calling '' @ bob @ [ellipsis]), Call (js ''bob'') mic,
          OnStream 2, OnClose 2, OnError 2]"
    by simp
  from placeCall_calling_before_call [of typed "Inr mic"] effects(4)
  have three: "announcedCalls False (trace (placeCall (Inr mic) typed))" by simp
  have four: "\<not> announcedCalls False [UpdateStatus Error (js ''Agent not ready yet.''), Call (js ''bob'') mic]"
    "\<not> announcedCalls False [Call (js ''bob'') mic]"
    by simp_all
  from placeCall_calling_before_call [of ?a "Inr mic" mic ?a, THEN conjunct1, THEN mp]
    held effects_held closing_held
  have five: "trace (placeCall (Inr mic) ?a)
       = trace answered
         @ [CancelAnimationFrame 1, RequestAnimationFrame 2,
            UpdateStatus Calling (js ''Calling '' @ bob @ [ellipsis]), Call (js ''bob'') mic,
            Close 9, UpdateStatus Ready (js ''Call ended.''), Close 9, StopTrack 1, StopTrack 2,
            CloseContext 0, Disconnect 1, CancelAnimationFrame 2,
            OnStream 2, OnClose 2, OnError 2]
     \<and> status (placeCall (Inr mic) ?a) = Ready"
    by (simp add: registrations_def)
  from one two three four five pre waiting live typed_acquired show ?thesis by simp
qed

text \<open>
  C10. When the identifier has a character that is not white space, the peer exists and
  the stream is acquired, \<open>placeCall\<close> invokes the transport's call operation with the
  trimmed identifier, the message of the status \<open>calling\<close> that it records embeds the
  identifier as typed, and the call handle kept is the one for the trimmed identifier.
  That message is still the status message when \<open>placeCall\<close> returns, unless closing a
  previous call has run the page's close handler. Whatever the outcome, no call
  operation of \<open>placeCall\<close>, run at once or resumed, has another identifier than the
  trimmed one. The trimmed identifier is the input without its leading and trailing white
  space: it is not empty and neither begins nor ends with white space.
\<close>

theorem placeCall_dials_trimmed:
  "((\<exists>c \<in> set (remoteId s). \<not> isWhiteSpace c) \<and> peerRef s \<noteq> None
      \<and> ensureLocalStream gum s = (Inr stream, s') \<longrightarrow>
      Call (trim (remoteId s)) stream \<in> set (drop (length (trace s)) (trace (placeCall gum s)))
      \<and> UpdateStatus Calling (js ''Calling '' @ remoteId s @ [ellipsis])
          \<in> set (drop (length (trace s)) (trace (placeCall gum s)))
      \<and> statusMessage (placeCall gum s)
          = (if handlerRuns s = 0 then js ''Calling '' @ remoteId s @ [ellipsis]
             else js ''Call ended.'')
      \<and> callRef (placeCall gum s) = Some \<lparr>conn_id = allocated s', peer = trim (remoteId s)\<rparr>)
   \<and> (\<forall>ident st. Call ident st \<in> set (drop (length (trace s)) (trace (placeCall gum s)))
        \<longrightarrow> ident = trim (remoteId s))
   \<and> (\<forall>ident st. Call ident st
          \<in> set (drop (length (trace s)) (trace (step (MediaSettled (PlaceCallK rid) gum) s)))
        \<longrightarrow> ident = trim rid)
   \<and> ((\<exists>c \<in> set rid. \<not> isWhiteSpace c) \<longrightarrow>
        trim rid \<noteq> [] \<and> \<not> isWhiteSpace (hd (trim rid)) \<and> \<not> isWhiteSpace (last (trim rid)))
   \<and> (\<exists>l r. rid = l @ trim rid @ r
        \<and> (\<forall>c \<in> set l. isWhiteSpace c) \<and> (\<forall>c \<in> set r. isWhiteSpace c))"
proof -
  have success: "Call (trim (remoteId s)) stream \<in> set (drop (length (trace s)) (trace (placeCall gum s)))
      \<and> UpdateStatus Calling (js ''Calling '' @ remoteId s @ [ellipsis])
          \<in> set (drop (length (trace s)) (trace (placeCall gum s)))
      \<and> statusMessage (placeCall gum s)
          = (if handlerRuns s = 0 then js ''Calling '' @ remoteId s @ [ellipsis]
             else js ''Call ended.'')
      \<and> callRef (placeCall gum s) = Some \<lparr>conn_id = allocated s', peer = trim (remoteId s)\<rparr>"
    if "\<exists>c \<in> set (remoteId s). \<not> isWhiteSpace c" "peerRef s \<noteq> None"
      "ensureLocalStream gum s = (Inr stream, s')"
  proof -
    from that(1) have "trim (remoteId s) \<noteq> []" by (simp add: trim_eq_Nil_iff)
    from placeCall_success [OF this that(2,3)]
      placeCall_continue_dials [of s' "remoteId s" stream]
    show ?thesis by simp
  qed
  have atomic: "\<forall>ident st. Call ident st \<in> set (drop (length (trace s)) (trace (placeCall gum s)))
        \<longrightarrow> ident = trim (remoteId s)"
    by (auto simp: placeCall_trace no_Call dest: Call_in_dialEffects split: if_splits)
  have resumed: "\<forall>ident st. Call ident st
          \<in> set (drop (length (trace s)) (trace (step (MediaSettled (PlaceCallK rid) gum) s)))
        \<longrightarrow> ident = trim rid"
  proof (cases "PlaceCallK rid \<in># awaiting s")
    case True
    show ?thesis
      by (auto simp: resume_eq [OF True] placeCall_continue_trace ensureLocalStream_settled_fields
            failureEffects_def dest: Call_in_dialEffects split: sum.splits)
  next
    case False
    then show ?thesis by (simp add: resume_def)
  qed
  have ends: "trim rid \<noteq> [] \<and> \<not> isWhiteSpace (hd (trim rid)) \<and> \<not> isWhiteSpace (last (trim rid))"
    if "\<exists>c \<in> set rid. \<not> isWhiteSpace c"
  proof -
    from that have "trim rid \<noteq> []" by (simp add: trim_eq_Nil_iff)
    with trim_ends [of rid] show ?thesis by simp
  qed
  from success atomic resumed ends trim_decompose [of rid] show ?thesis by blast
qed

text \<open>The identifier of \<open>typed\<close> is \<open>bob\<close> between two spaces.\<close>

theorem placeCall_dials_trimmed_witness:
  "remoteId typed = js '' bob '' \<and> bob = [0x20, 0x62, 0x6F, 0x62, 0x20] \<and> \<not> isWhiteSpace 0x62
   \<and> peerRef typed \<noteq> None
   \<and> ensureLocalStream (Inr mic) typed
       = (Inr mic,
          typed\<lparr>trace := [GetUserMedia], localStreamRef := Some mic,
                 localAudioRef := Some (Some mic), audioContextRef := Some 0,
                 analyserRef := Some \<lparr>node_id = 1, fftSize = 256\<rparr>, allocated := 2\<rparr>)
   \<and> Call (js ''bob'') mic \<in> set (drop (length (trace typed)) (trace (placeCall (Inr mic) typed)))
   \<and> statusMessage (placeCall (Inr mic) typed) = js ''Calling  bob '' @ [ellipsis]
   \<and> callRef (placeCall (Inr mic) typed) = Some \<lparr>conn_id = 2, peer = js ''bob''\<rparr>
   \<and> trim bob = js ''bob''
   \<and> \<not> isWhiteSpace (hd (trim bob)) \<and> \<not> isWhiteSpace (last (trim bob))"
proof -
  let ?s' = "typed\<lparr>trace := [GetUserMedia], localStreamRef := Some mic,
                   localAudioRef := Some (Some mic), audioContextRef := Some 0,
                   analyserRef := Some \<lparr>node_id = 1, fftSize = 256\<rparr>, allocated := 2\<rparr>"
  have nonblank: "\<exists>c \<in> set (remoteId typed). \<not> isWhiteSpace c" "\<exists>c \<in> set bob. \<not> isWhiteSpace c"
    by (simp_all add: typed_eq bob_def js_def isWhiteSpace_def)
  have pre: "peerRef typed \<noteq> None" "remoteId typed = bob" "bob = js '' bob ''"
    "trim (remoteId typed) = js ''bob''" "allocated ?s' = 2"
    by (simp_all add: typed_eq trim_bob) (simp add: bob_def)
  have quiet: "handlerRuns typed = 0"
    by (simp add: handlerRuns_def typed_eq init_def)
  note dials = placeCall_dials_trimmed [of typed "Inr mic" mic ?s' bob]
  from nonblank(1) pre(1) typed_acquired
  have "(\<exists>c \<in> set (remoteId typed). \<not> isWhiteSpace c) \<and> peerRef typed \<noteq> None
      \<and> ensureLocalStream (Inr mic) typed = (Inr mic, ?s')"
    by simp
  from dials [THEN conjunct1, THEN mp, OF this] quiet
  have "Call (trim (remoteId typed)) mic
          \<in> set (drop (length (trace typed)) (trace (placeCall (Inr mic) typed)))
      \<and> statusMessage (placeCall (Inr mic) typed) = js ''Calling '' @ remoteId typed @ [ellipsis]
      \<and> callRef (placeCall (Inr mic) typed)
          = Some \<lparr>conn_id = allocated ?s', peer = trim (remoteId typed)\<rparr>"
    by simp
  moreover from dials [THEN conjunct2, THEN conjunct2, THEN conjunct2, THEN conjunct1, THEN mp,
    OF nonblank(2)]
  have "\<not> isWhiteSpace (hd (trim bob)) \<and> \<not> isWhiteSpace (last (trim bob))"
    by simp
  moreover have "bob = [0x20, 0x62, 0x6F, 0x62, 0x20]" "\<not> isWhiteSpace 0x62"
    by (simp_all add: bob_def js_def isWhiteSpace_def)
  ultimately show ?thesis using pre typed_acquired trim_bob by (simp add: js_def)
qed

lemma onPeerCall_failure:
  assumes "ensureLocalStream gum
             (updateStatus Incoming (js ''Call incoming from '' @ peer c @ js ''.'') s)
           = (Inl error, s')"
  shows "onPeerCall gum c s
           = updateStatus Error (messageOr error (js ''Unable to answer incoming call.'')) s'"
    and "callRef s' = callRef s" and "callListeners s' = callListeners s"
proof -
  let ?s1 = "updateStatus Incoming (js ''Call incoming from '' @ peer c @ js ''.'') s"
  from assms show "onPeerCall gum c s
           = updateStatus Error (messageOr error (js ''Unable to answer incoming call.'')) s'"
    by (simp add: onPeerCall_def onPeerCall_continue_def Let_def)
  from assms have "snd (ensureLocalStream gum ?s1) = s'" by simp
  with ensureLocalStream_fields [of gum ?s1]
  show "callRef s' = callRef s" "callListeners s' = callListeners s"
    by (simp_all add: updateStatus_fields)
qed

text \<open>
  C5. When acquiring the local stream fails for an inbound call, whether the handler
  runs at once or resumes after other events, the status becomes \<open>error\<close> with the
  failure's message (a fixed text when the failure is not an \<open>Error\<close>), the answer
  operation is not invoked, and no call handle is registered. Whenever the answer
  operation is invoked, it is on the inbound call and with the stream that the
  acquisition returned. A rejected microphone request is such a failure.
\<close>

theorem incoming_call_needs_stream:
  "(ensureLocalStream gum
       (updateStatus Incoming (js ''Call incoming from '' @ peer c @ js ''.'') s)
      = (Inl error, s') \<longrightarrow>
      status (onPeerCall gum c s) = Error
      \<and> statusMessage (onPeerCall gum c s)
          = messageOr error (js ''Unable to answer incoming call.'')
      \<and> (\<forall>h st. Answer h st \<notin> set (drop (length (trace s)) (trace (onPeerCall gum c s))))
      \<and> callRef (onPeerCall gum c s) = callRef s
      \<and> callListeners (onPeerCall gum c s) = callListeners s)
   \<and> (AnswerK c \<in># awaiting s
      \<and> ensureLocalStream_settled gum (s\<lparr>awaiting := awaiting s - {#AnswerK c#}\<rparr>)
          = (Inl error, s') \<longrightarrow>
      status (step (MediaSettled (AnswerK c) gum) s) = Error
      \<and> statusMessage (step (MediaSettled (AnswerK c) gum) s)
          = messageOr error (js ''Unable to answer incoming call.'')
      \<and> (\<forall>h st. Answer h st
            \<notin> set (drop (length (trace s)) (trace (step (MediaSettled (AnswerK c) gum) s))))
      \<and> callRef (step (MediaSettled (AnswerK c) gum) s) = callRef s
      \<and> callListeners (step (MediaSettled (AnswerK c) gum) s) = callListeners s)
   \<and> (\<forall>h st. Answer h st \<in> set (drop (length (trace s)) (trace (onPeerCall gum c s)))
        \<longrightarrow> h = conn_id c
            \<and> fst (ensureLocalStream gum
                   (updateStatus Incoming (js ''Call incoming from '' @ peer c @ js ''.'') s))
                = Inr st)
   \<and> (\<forall>h st. Answer h st
          \<in> set (drop (length (trace s)) (trace (step (MediaSettled (AnswerK c) gum) s)))
        \<longrightarrow> h = conn_id c
            \<and> fst (ensureLocalStream_settled gum (s\<lparr>awaiting := awaiting s - {#AnswerK c#}\<rparr>))
                = Inr st)
   \<and> (localStreamRef s = None \<longrightarrow>
        fst (ensureLocalStream (Inl error)
              (updateStatus Incoming (js ''Call incoming from '' @ peer c @ js ''.'') s))
          = Inl error)
   \<and> messageOr (ErrorInstance m) (js ''Unable to answer incoming call.'') = m"
proof -
  let ?s1 = "updateStatus Incoming (js ''Call incoming from '' @ peer c @ js ''.'') s"
  let ?t = "s\<lparr>awaiting := awaiting s - {#AnswerK c#}\<rparr>"
  have atomic: "status (onPeerCall gum c s) = Error
      \<and> statusMessage (onPeerCall gum c s)
          = messageOr error (js ''Unable to answer incoming call.'')
      \<and> (\<forall>h st. Answer h st \<notin> set (drop (length (trace s)) (trace (onPeerCall gum c s))))
      \<and> callRef (onPeerCall gum c s) = callRef s
      \<and> callListeners (onPeerCall gum c s) = callListeners s"
    if r: "ensureLocalStream gum ?s1 = (Inl error, s')"
  proof -
    from r have fs: "fst (ensureLocalStream gum ?s1) = Inl error" by simp
    have "\<forall>h st. Answer h st \<notin> set (drop (length (trace s)) (trace (onPeerCall gum c s)))"
      by (simp add: onPeerCall_trace fs no_Answer answerEffects_def)
    with onPeerCall_failure [OF r] show ?thesis by (simp add: updateStatus_fields)
  qed
  have resumed: "status (step (MediaSettled (AnswerK c) gum) s) = Error
      \<and> statusMessage (step (MediaSettled (AnswerK c) gum) s)
          = messageOr error (js ''Unable to answer incoming call.'')
      \<and> (\<forall>h st. Answer h st
            \<notin> set (drop (length (trace s)) (trace (step (MediaSettled (AnswerK c) gum) s))))
      \<and> callRef (step (MediaSettled (AnswerK c) gum) s) = callRef s
      \<and> callListeners (step (MediaSettled (AnswerK c) gum) s) = callListeners s"
    if k: "AnswerK c \<in># awaiting s" and r: "ensureLocalStream_settled gum ?t = (Inl error, s')"
  proof -
    from r have fs: "fst (ensureLocalStream_settled gum ?t) = Inl error"
      and sn: "snd (ensureLocalStream_settled gum ?t) = s'" by simp_all
    from ensureLocalStream_settled_fields [of gum ?t]
    have "callRef s' = callRef s" "callListeners s' = callListeners s"
      "trace s' = trace s @ failureEffects (Inl error)"
      by (simp_all add: fs sn)
    then show ?thesis
      by (simp add: resume_eq [OF k] fs sn onPeerCall_continue_fields onPeerCall_continue_trace
            answerEffects_def no_Answer)
  qed
  have only_atomic: "\<forall>h st. Answer h st \<in> set (drop (length (trace s)) (trace (onPeerCall gum c s)))
        \<longrightarrow> h = conn_id c \<and> fst (ensureLocalStream gum ?s1) = Inr st"
    by (auto simp: onPeerCall_trace no_Answer dest: Answer_in_answerEffects)
  have only_resumed: "\<forall>h st. Answer h st
          \<in> set (drop (length (trace s)) (trace (step (MediaSettled (AnswerK c) gum) s)))
        \<longrightarrow> h = conn_id c \<and> fst (ensureLocalStream_settled gum ?t) = Inr st"
  proof (cases "AnswerK c \<in># awaiting s")
    case True
    show ?thesis
      by (auto simp: resume_eq [OF True] onPeerCall_continue_trace ensureLocalStream_settled_fields
            no_Answer dest: Answer_in_answerEffects)
  next
    case False
    then show ?thesis by (simp add: resume_def)
  qed
  have rejected: "fst (ensureLocalStream (Inl error) ?s1) = Inl error" if "localStreamRef s = None"
    using that by (simp add: ensureLocalStream_fails updateStatus_fields)
  from atomic resumed only_atomic only_resumed rejected show ?thesis by simp
qed

text \<open>An inbound call whose microphone request is refused, and one whose request is granted.\<close>

theorem incoming_call_needs_stream_witness:
  "localStreamRef loaded = None
   \<and> ensureLocalStream (Inl denied)
         (updateStatus Incoming (js ''Call incoming from '' @ peer inbound @ js ''.'') loaded)
       = (Inl denied,
          loaded\<lparr>status := Error, statusMessage := js ''Permission denied'',
                  trace := [UpdateStatus Incoming (js ''Call incoming from alice.''), GetUserMedia,
                            UpdateStatus Error (js ''Permission denied'')]\<rparr>)
   \<and> status (onPeerCall (Inl denied) inbound loaded) = Error
   \<and> statusMessage (onPeerCall (Inl denied) inbound loaded) = js ''Permission denied''
   \<and> Answer 9 mic \<notin> set (trace (onPeerCall (Inl denied) inbound loaded))
   \<and> AnswerK inbound \<in># awaiting ringing
   \<and> status (step (MediaSettled (AnswerK inbound) (Inl denied)) ringing) = Error
   \<and> statusMessage (step (MediaSettled (AnswerK inbound) (Inl denied)) ringing)
       = js ''Permission denied''
   \<and> Answer 9 mic \<notin> set (drop (length (trace ringing))
         (trace (step (MediaSettled (AnswerK inbound) (Inl denied)) ringing)))
   \<and> Answer 9 mic \<in> set (trace (onPeerCall (Inr mic) inbound loaded))"
proof -
  let ?s' = "loaded\<lparr>status := Error, statusMessage := js ''Permission denied'',
                  trace := [UpdateStatus Incoming (js ''Call incoming from alice.''), GetUserMedia,
                            UpdateStatus Error (js ''Permission denied'')]\<rparr>"
  let ?t' = "loaded\<lparr>status := Error, statusMessage := js ''Permission denied'',
                  trace := [UpdateStatus Incoming (js ''Call incoming from alice.''), GetUserMedia,
                            UpdateStatus Error (js ''Permission denied'')], awaiting := {#}\<rparr>"
  have none: "localStreamRef loaded = None" "trace loaded = []"
    by (simp_all add: loaded_eq init_def)
  have failed: "ensureLocalStream (Inl denied)
         (updateStatus Incoming (js ''Call incoming from '' @ peer inbound @ js ''.'') loaded)
       = (Inl denied, ?s')"
    by (simp add: loaded_eq init_def ensureLocalStream_def ensureLocalStream_settled_eq
          updateStatus_def emit_def deniedMessage_def denied_def inbound_def js_def)
  have waiting: "AnswerK inbound \<in># awaiting ringing" "trace ringing
       = [UpdateStatus Incoming (js ''Call incoming from alice.''), GetUserMedia]"
    by (simp_all add: ringing_eq)
  have failed': "ensureLocalStream_settled (Inl denied)
         (ringing\<lparr>awaiting := awaiting ringing - {#AnswerK inbound#}\<rparr>) = (Inl denied, ?t')"
    by (simp add: ringing_eq ensureLocalStream_settled_eq updateStatus_def emit_def
          deniedMessage_def denied_def)
  have "fst (ensureLocalStream (Inr mic)
         (updateStatus Incoming (js ''Call incoming from '' @ peer inbound @ js ''.'') loaded))
       = Inr mic"
    by (rule ensureLocalStream_succeeds(2))
       (simp_all add: updateStatus_def emit_def noAudioContext_def loaded_eq init_def)
  then have answered: "Answer 9 mic \<in> set (trace (onPeerCall (Inr mic) inbound loaded))"
    by (simp add: onPeerCall_trace answerEffects_def inbound_def)
  from incoming_call_needs_stream [of "Inl denied" inbound loaded denied ?s'] failed none
  have one: "status (onPeerCall (Inl denied) inbound loaded) = Error
   \<and> statusMessage (onPeerCall (Inl denied) inbound loaded)
       = messageOr denied (js ''Unable to answer incoming call.'')
   \<and> Answer 9 mic \<notin> set (trace (onPeerCall (Inl denied) inbound loaded))"
    by simp
  from incoming_call_needs_stream [of "Inl denied" inbound ringing denied ?t'] failed' waiting
  have two: "status (step (MediaSettled (AnswerK inbound) (Inl denied)) ringing) = Error
   \<and> statusMessage (step (MediaSettled (AnswerK inbound) (Inl denied)) ringing)
       = messageOr denied (js ''Unable to answer incoming call.'')
   \<and> Answer 9 mic \<notin> set (drop (length (trace ringing))
         (trace (step (MediaSettled (AnswerK inbound) (Inl denied)) ringing)))"
    by simp
  from one two none failed waiting(1) answered show ?thesis
    by (simp add: denied_def)
qed

section \<open>The mic level loop\<close>

lemma oneLoop_cong:
  "frameCallbacks s' = frameCallbacks s \<Longrightarrow> animationFrameRef s' = animationFrameRef s \<Longrightarrow>
   oneLoop s' = oneLoop s"
  by (simp add: oneLoop_def split: list.splits)

lemma oneLoop_updates:
  "oneLoop (s\<lparr>awaiting := a\<rparr>) = oneLoop s" "oneLoop (s\<lparr>isMounted := b\<rparr>) = oneLoop s"
  "oneLoop (s\<lparr>callRef := c\<rparr>) = oneLoop s" "oneLoop (s\<lparr>trace := t\<rparr>) = oneLoop s"
  "oneLoop (s\<lparr>peerRef := p\<rparr>) = oneLoop s" "oneLoop (s\<lparr>peerListening := l\<rparr>) = oneLoop s"
  "oneLoop (s\<lparr>remoteId := v\<rparr>) = oneLoop s" "oneLoop (s\<lparr>localId := v\<rparr>) = oneLoop s"
  "oneLoop (s\<lparr>frequencyData := d\<rparr>) = oneLoop s" "oneLoop (s\<lparr>allocated := n\<rparr>) = oneLoop s"
  "oneLoop (s\<lparr>openCalls := calls\<rparr>) = oneLoop s" "oneLoop (s\<lparr>callListeners := ls\<rparr>) = oneLoop s"
  "oneLoop (s\<lparr>remoteAudioRef := r, localAudioRef := la\<rparr>) = oneLoop s"
  by (rule oneLoop_cong, simp, simp)+

lemma oneLoop_length: "oneLoop s \<Longrightarrow> length (frameCallbacks s) \<le> 1"
  by (simp add: oneLoop_def split: list.splits)

lemma cancelPendingFrame_clears:
  "oneLoop s \<Longrightarrow> frameCallbacks (cancelPendingFrame s) = []"
  by (cases "animationFrameRef s")
     (auto simp: oneLoop_def cancelPendingFrame_eq split: list.splits)

lemma destroyCall_clears: "oneLoop s \<Longrightarrow> frameCallbacks (destroyCall s) = []"
  by (cases "animationFrameRef s")
     (auto simp: oneLoop_def destroyCall_eq split: list.splits)

lemma tick_starts:
  "frameCallbacks s = [] \<Longrightarrow> oneLoop (tick analyser s) \<and> length (frameCallbacks (tick analyser s)) = 1"
  by (simp add: tick_eq oneLoop_def)

lemma oneLoop_observeMicLevel: "oneLoop s \<Longrightarrow> oneLoop (observeMicLevel s)"
  by (cases "analyserRef s")
     (simp_all add: observeMicLevel_def tick_starts cancelPendingFrame_clears)

lemma observeMicLevel_running:
  "oneLoop s \<Longrightarrow> analyserRef s \<noteq> None \<Longrightarrow> length (frameCallbacks (observeMicLevel s)) = 1"
  by (cases "analyserRef s")
     (simp_all add: observeMicLevel_def tick_starts cancelPendingFrame_clears)

lemma oneLoop_destroyCall: "oneLoop s \<Longrightarrow> oneLoop (destroyCall s)"
  by (simp add: oneLoop_def [of "destroyCall s"] destroyCall_clears)

lemma oneLoop_updateStatus: "oneLoop (updateStatus n m s) = oneLoop s"
  by (rule oneLoop_cong) (simp_all add: updateStatus_fields)

lemma oneLoop_emit: "oneLoop (emit es s) = oneLoop s"
  by (rule oneLoop_cong) (simp_all add: emit_def)

lemma oneLoop_closeCurrentCall: "oneLoop s \<Longrightarrow> oneLoop (closeCurrentCall s)"
  by (simp add: closeCurrentCall_eq oneLoop_updates oneLoop_destroyCall)

lemma oneLoop_registerCallHandlers: "oneLoop s \<Longrightarrow> oneLoop (registerCallHandlers call s)"
  by (simp add: registerCallHandlers_eq oneLoop_updates oneLoop_closeCurrentCall)

lemma oneLoop_answer: "oneLoop (answer call stream s) = oneLoop s"
  by (rule oneLoop_cong) (simp_all add: answer_fields)

lemma oneLoop_settled: "oneLoop (snd (ensureLocalStream_settled gum s)) = oneLoop s"
  by (rule oneLoop_cong) (simp_all add: ensureLocalStream_settled_fields)

lemma oneLoop_placeCall_continue: "oneLoop s \<Longrightarrow> oneLoop (placeCall_continue rid r s)"
  by (cases r; cases "peerRef (observeMicLevel s)")
     (simp_all add: placeCall_continue_def Let_def oneLoop_updateStatus oneLoop_emit
        oneLoop_registerCallHandlers oneLoop_observeMicLevel updateStatus_fields
        oneLoop_updates)

lemma oneLoop_onPeerCall_continue: "oneLoop s \<Longrightarrow> oneLoop (onPeerCall_continue c r s)"
  by (cases r)
     (simp_all add: onPeerCall_continue_def oneLoop_updateStatus oneLoop_answer
        oneLoop_registerCallHandlers oneLoop_observeMicLevel)

lemma oneLoop_suspend: "oneLoop (suspend k s) = oneLoop s"
  by (rule oneLoop_cong) (simp_all add: suspend_def emit_def)

lemma oneLoop_onCallStream: "oneLoop (onCallStream call remoteStream s) = oneLoop s"
  by (rule oneLoop_cong; cases "remoteAudioRef s"; simp add: onCallStream_def updateStatus_fields)

lemma fold_preserves:
  assumes "\<And>x t. P t \<Longrightarrow> P (f x t)" and "P s"
  shows "P (fold f xs s)"
  using assms(2) by (induction xs arbitrary: s) (simp_all add: assms(1))

lemma oneLoop_frameFires: "oneLoop s \<Longrightarrow> oneLoop (frameFires handle s)"
proof (cases "map_of (frameCallbacks s) handle")
  case None
  assume "oneLoop s"
  with None show ?thesis by (simp add: frameFires_def)
next
  case (Some analyser)
  assume inv: "oneLoop s"
  from Some obtain cb where "frameCallbacks s = [cb]" "fst cb = handle"
    using inv by (auto simp: oneLoop_def split: list.splits if_splits)
  then have "frameCallbacks (s\<lparr>frameCallbacks := filter (\<lambda>cb. fst cb \<noteq> handle) (frameCallbacks s)\<rparr>) = []"
    by simp
  from tick_starts [OF this] Some show ?thesis by (simp add: frameFires_def)
qed

lemma oneLoop_step: "oneLoop s \<Longrightarrow> oneLoop (step ev s)"
proof (cases ev)
  case (CallStream h remoteStream)
  assume "oneLoop s"
  then have "oneLoop (fold (\<lambda>call. onCallStream call remoteStream) (listenersOf h s) s)"
    by (rule fold_preserves [rotated])
       (simp add: oneLoop_onCallStream)
  with CallStream show ?thesis by simp
next
  case (CallClose h)
  assume "oneLoop s"
  then have "oneLoop (s\<lparr>openCalls := openCalls s - {h}\<rparr>)"
    by (simp add: oneLoop_updates)
  then have "oneLoop (fold (\<lambda>call. onCallClose) (listenersOf h s)
                        (s\<lparr>openCalls := openCalls s - {h}\<rparr>))"
    by (rule fold_preserves [rotated])
       (simp add: onCallClose_def oneLoop_updateStatus oneLoop_destroyCall)
  with CallClose show ?thesis by simp
next
  case (CallError h error)
  assume "oneLoop s"
  then have "oneLoop (fold (\<lambda>call. onCallError error) (listenersOf h s) s)"
    by (rule fold_preserves [rotated])
       (simp add: onCallError_def oneLoop_updateStatus oneLoop_destroyCall)
  with CallError show ?thesis by simp
next
  case ClickCall
  assume "oneLoop s"
  with ClickCall show ?thesis
    by (cases "localStreamRef s")
       (simp_all add: placeCall_begin_def oneLoop_updateStatus oneLoop_suspend
          oneLoop_placeCall_continue)
next
  case (PeerCall incomingCall)
  assume "oneLoop s"
  with PeerCall show ?thesis
    by (cases "localStreamRef s")
       (simp_all add: onPeerCall_begin_def Let_def updateStatus_fields oneLoop_updateStatus
          oneLoop_suspend oneLoop_onPeerCall_continue)
next
  case (MediaSettled k gum)
  assume inv: "oneLoop s"
  let ?t = "s\<lparr>awaiting := awaiting s - {#k#}\<rparr>"
  from inv have "oneLoop ?t" by (simp add: oneLoop_updates)
  then have "oneLoop (snd (ensureLocalStream_settled gum ?t))" by (simp add: oneLoop_settled)
  with MediaSettled inv show ?thesis
    by (cases k)
       (simp_all add: resume_def case_prod_beta oneLoop_placeCall_continue
          oneLoop_onPeerCall_continue)
next
  case ClickEnd
  assume "oneLoop s"
  then have "oneLoop ((closeCurrentCall s)\<lparr>callRef := None\<rparr>)"
    by (simp add: oneLoop_closeCurrentCall oneLoop_updates)
  with ClickEnd show ?thesis
    by (simp add: endCall_def oneLoop_updateStatus oneLoop_destroyCall)
next
  case (AnimationFrame handle)
  assume "oneLoop s"
  with AnimationFrame show ?thesis by (simp add: oneLoop_frameFires)
next
  case Unmount
  let ?u = "s\<lparr>remoteAudioRef := None, localAudioRef := None, isMounted := False\<rparr>"
  assume "oneLoop s"
  then have "oneLoop ?u" by (simp add: oneLoop_updates)
  then have "oneLoop (destroyCall ?u)" by (rule oneLoop_destroyCall)
  with Unmount show ?thesis
    by (cases "peerRef (destroyCall ?u)")
       (simp_all add: cleanup_def Let_def emit_def oneLoop_updates)
next
  case (PeerOpen ident)
  assume "oneLoop s"
  with PeerOpen show ?thesis
    by (simp add: onPeerOpen_def oneLoop_updateStatus) (simp add: oneLoop_updates)
next
  case PeerDisconnected
  assume "oneLoop s"
  with PeerDisconnected show ?thesis
    by (simp add: onPeerDisconnected_def oneLoop_updateStatus oneLoop_emit)
next
  case (PeerError error)
  assume "oneLoop s"
  with PeerError show ?thesis by (simp add: onPeerError_def oneLoop_updateStatus)
qed (simp_all add: oneLoop_updates)

lemma oneLoop_run: "oneLoop s \<Longrightarrow> oneLoop (run evs s)"
  unfolding run_def by (induction evs arbitrary: s) (simp_all add: oneLoop_step)

lemma oneLoop_init: "oneLoop (init ctor)"
  by (simp add: oneLoop_def init_def)

lemma observeMicLevel_restart:
  assumes "analyserRef s = Some analyser"
  shows "trace (observeMicLevel s)
           = trace s @ cancelEffects s @ [RequestAnimationFrame (Suc (rafCounter s))]"
    and "animationFrameRef (observeMicLevel s) = Some (Suc (rafCounter s))"
    and "oneLoop s \<Longrightarrow> frameCallbacks (observeMicLevel s) = [(Suc (rafCounter s), analyser)]"
proof -
  from assms show "trace (observeMicLevel s)
           = trace s @ cancelEffects s @ [RequestAnimationFrame (Suc (rafCounter s))]"
    and "animationFrameRef (observeMicLevel s) = Some (Suc (rafCounter s))"
    by (simp_all add: observeMicLevel_def tick_eq cancelPendingFrame_eq)
  assume "oneLoop s"
  from cancelPendingFrame_clears [OF this] assms
  show "frameCallbacks (observeMicLevel s) = [(Suc (rafCounter s), analyser)]"
    by (simp add: observeMicLevel_def tick_eq) (simp add: cancelPendingFrame_eq)
qed

lemma observeMicLevel_repeated:
  "oneLoop s \<Longrightarrow> oneLoop ((observeMicLevel ^^ n) s)"
  "analyserRef ((observeMicLevel ^^ n) s) = analyserRef s"
  by (induction n) (simp_all add: oneLoop_observeMicLevel observeMicLevel_fields)

text \<open>
  C8. When \<open>observeMicLevel\<close> runs while a frame is pending, it cancels that frame
  before it requests a new one, and afterwards exactly the new callback is scheduled.
  Any number of consecutive \<open>observeMicLevel\<close> calls leaves at most one callback
  scheduled (exactly one when there is an analyser and at least one call), every event
  of the page keeps it so, and it holds in every state the page can reach.
\<close>

theorem observeMicLevel_single_loop:
  "(analyserRef s = Some analyser \<and> animationFrameRef s = Some h \<and> h \<noteq> 0 \<longrightarrow>
      trace (observeMicLevel s)
        = trace s @ [CancelAnimationFrame h, RequestAnimationFrame (Suc (rafCounter s))])
   \<and> (oneLoop s \<and> analyserRef s = Some analyser \<longrightarrow>
        frameCallbacks (observeMicLevel s) = [(Suc (rafCounter s), analyser)]
        \<and> animationFrameRef (observeMicLevel s) = Some (Suc (rafCounter s)))
   \<and> (oneLoop s \<longrightarrow>
        oneLoop ((observeMicLevel ^^ n) s)
        \<and> length (frameCallbacks ((observeMicLevel ^^ n) s)) \<le> 1)
   \<and> (oneLoop s \<and> analyserRef s = Some analyser \<and> 0 < n \<longrightarrow>
        length (frameCallbacks ((observeMicLevel ^^ n) s)) = 1)
   \<and> (oneLoop s \<longrightarrow> oneLoop (step ev s))
   \<and> oneLoop (run evs (init ctor))
   \<and> length (frameCallbacks (run evs (init ctor))) \<le> 1"
proof -
  have cancel: "trace (observeMicLevel s)
        = trace s @ [CancelAnimationFrame h, RequestAnimationFrame (Suc (rafCounter s))]"
    if "analyserRef s = Some analyser" "animationFrameRef s = Some h" "h \<noteq> 0"
    using observeMicLevel_restart(1) [OF that(1)] that(2,3) by (simp add: cancelEffects_def)
  have repeated: "length (frameCallbacks ((observeMicLevel ^^ n) s)) = 1"
    if inv: "oneLoop s" and a: "analyserRef s = Some analyser" and n: "0 < n"
  proof -
    from n obtain m where m: "n = Suc m" by (cases n) auto
    let ?t = "(observeMicLevel ^^ m) s"
    from inv a have "oneLoop ?t" "analyserRef ?t = Some analyser"
      by (simp_all add: observeMicLevel_repeated)
    from observeMicLevel_restart(3) [OF this(2) this(1)] m show ?thesis by simp
  qed
  have reach: "oneLoop (run evs (init ctor))"
    by (rule oneLoop_run) (rule oneLoop_init)
  from cancel repeated reach oneLoop_length [OF reach] observeMicLevel_restart(2,3) [of s analyser]
    observeMicLevel_repeated(1) [of s n] oneLoop_length [of "(observeMicLevel ^^ n) s"]
    oneLoop_step [of s ev]
  show ?thesis by blast
qed

text \<open>In \<open>dialled\<close> frame 1 is pending; restarting the loop cancels it and schedules frame 2.\<close>

theorem observeMicLevel_single_loop_witness:
  "analyserRef dialled = Some \<lparr>node_id = 1, fftSize = 256\<rparr>
   \<and> animationFrameRef dialled = Some 1 \<and> oneLoop dialled
   \<and> frameCallbacks dialled = [(1, \<lparr>node_id = 1, fftSize = 256\<rparr>)]
   \<and> trace (observeMicLevel dialled)
       = trace dialled @ [CancelAnimationFrame 1, RequestAnimationFrame 2]
   \<and> frameCallbacks (observeMicLevel dialled) = [(2, \<lparr>node_id = 1, fftSize = 256\<rparr>)]
   \<and> length (frameCallbacks (observeMicLevel (observeMicLevel dialled))) = 1
   \<and> oneLoop (step (AnimationFrame 1) dialled)"
proof -
  have pre: "analyserRef dialled = Some \<lparr>node_id = 1, fftSize = 256\<rparr>"
    "animationFrameRef dialled = Some 1" "oneLoop dialled" "rafCounter dialled = 1"
    "frameCallbacks dialled = [(1, \<lparr>node_id = 1, fftSize = 256\<rparr>)]"
    by (simp_all add: dialled_eq oneLoop_def)
  from observeMicLevel_single_loop
         [of dialled "\<lparr>node_id = 1, fftSize = 256\<rparr>" 1 "Suc (Suc 0)" "AnimationFrame 1"] pre
  show ?thesis by simp
qed

section \<open>One call at a time\<close>







































section \<open>The published mic level\<close>

lemma volume_mean: "data \<noteq> [] \<Longrightarrow> volume data = Num (Math_round (arithmeticMean data))"
  by (simp add: volume_def arithmeticMean_def reduce_sum_eq)

lemma sum_bytes_le: "sum_list (map unat (data :: 8 word list)) \<le> 255 * length data"
proof (induction data)
  case Nil
  show ?case by simp
next
  case (Cons v data)
  have "unat v < 2 ^ LENGTH(8)" by (rule unsigned_less)
  with Cons show ?case by simp
qed

lemma arithmeticMean_bounds:
  assumes "data \<noteq> []"
  shows "0 \<le> arithmeticMean data" and "arithmeticMean data \<le> 255"
proof -
  show "0 \<le> arithmeticMean data" by (simp add: arithmeticMean_def)
  from assms have pos: "0 < (of_nat (length data) :: rat)" by simp
  have "(of_nat (sum_list (map unat data)) :: rat) \<le> of_nat (255 * length data)"
    using sum_bytes_le [of data] by (simp only: of_nat_le_iff)
  then have "(of_nat (sum_list (map unat data)) :: rat) \<le> 255 * of_nat (length data)" by simp
  with pos show "arithmeticMean data \<le> 255"
    by (simp add: arithmeticMean_def pos_divide_le_eq)
qed

lemma Math_round_nearest: "\<bar>of_int (Math_round q) - q\<bar> \<le> 1 / 2"
proof -
  have "of_int \<lfloor>q + 1 / 2\<rfloor> \<le> q + 1 / 2" by (rule of_int_floor_le)
  moreover have "q + 1 / 2 < of_int \<lfloor>q + 1 / 2\<rfloor> + 1" by linarith
  ultimately show ?thesis unfolding Math_round_def by linarith
qed

lemma Math_round_bounds:
  assumes "0 \<le> q" "q \<le> 255"
  shows "0 \<le> Math_round q" and "Math_round q \<le> 255"
proof -
  from assms(1) show "0 \<le> Math_round q" by (simp add: Math_round_def)
  from assms(2) have "q + 1 / 2 < of_int 256" by simp
  then have "\<lfloor>q + 1 / 2\<rfloor> < 256" by (simp only: floor_less_iff)
  then show "Math_round q \<le> 255" by (simp add: Math_round_def)
qed

lemma volume_replicate: "0 < n \<Longrightarrow> volume (replicate n c) = Num (int (unat c))"
proof -
  assume n: "0 < n"
  then have mean: "arithmeticMean (replicate n c) = of_nat (unat c)"
    by (simp add: arithmeticMean_def sum_list_replicate)
  have round: "Math_round (of_nat k) = int k" for k
    by (simp add: Math_round_def floor_eq_iff)
  from n have "replicate n c \<noteq> []" by simp
  then have "volume (replicate n c) = Num (Math_round (arithmeticMean (replicate n c)))"
    by (rule volume_mean)
  then show ?thesis by (simp only: mean round)
qed

lemma getByteFrequencyData_length:
  "length (getByteFrequencyData analyser s) = frequencyBinCount analyser"
  by (simp add: getByteFrequencyData_def Let_def)

lemma tick_level:
  assumes "fftSize analyser = 256"
  shows "length (getByteFrequencyData analyser s) = 128"
    and "micLevel (tick analyser s)
           = Num (Math_round (arithmeticMean (getByteFrequencyData analyser s)))"
proof -
  from assms show len: "length (getByteFrequencyData analyser s) = 128"
    by (simp add: getByteFrequencyData_length frequencyBinCount_def)
  then have "getByteFrequencyData analyser s \<noteq> []" by auto
  then show "micLevel (tick analyser s)
           = Num (Math_round (arithmeticMean (getByteFrequencyData analyser s)))"
    by (simp add: tick_eq volume_mean)
qed

lemma wellTuned_cong:
  "analyserRef s' = analyserRef s \<Longrightarrow> frameCallbacks s' = frameCallbacks s \<Longrightarrow>
   micLevel s' = micLevel s \<Longrightarrow> wellTuned s' = wellTuned s"
  by (simp add: wellTuned_def)

lemma wellTuned_updates:
  "wellTuned (s\<lparr>awaiting := a\<rparr>) = wellTuned s" "wellTuned (s\<lparr>isMounted := b\<rparr>) = wellTuned s"
  "wellTuned (s\<lparr>peerRef := p\<rparr>) = wellTuned s" "wellTuned (s\<lparr>peerListening := l\<rparr>) = wellTuned s"
  "wellTuned (s\<lparr>remoteId := v\<rparr>) = wellTuned s" "wellTuned (s\<lparr>localId := v\<rparr>) = wellTuned s"
  "wellTuned (s\<lparr>frequencyData := d\<rparr>) = wellTuned s" "wellTuned (s\<lparr>allocated := n\<rparr>) = wellTuned s"
  "wellTuned (s\<lparr>remoteAudioRef := x\<rparr>) = wellTuned s" "wellTuned (s\<lparr>callRef := c\<rparr>) = wellTuned s"
  "wellTuned (s\<lparr>trace := t\<rparr>) = wellTuned s"
  "wellTuned (s\<lparr>openCalls := calls\<rparr>) = wellTuned s"
  "wellTuned (s\<lparr>callListeners := ls\<rparr>) = wellTuned s"
  "wellTuned (s\<lparr>remoteAudioRef := x, localAudioRef := la\<rparr>) = wellTuned s"
  by (rule wellTuned_cong, simp, simp, simp)+

lemma wellTuned_updateStatus: "wellTuned (updateStatus n m s) = wellTuned s"
  by (rule wellTuned_cong) (simp_all add: updateStatus_fields)

lemma wellTuned_emit: "wellTuned (emit es s) = wellTuned s"
  by (rule wellTuned_cong) (simp_all add: emit_def)

lemma wellTuned_tick:
  assumes "wellTuned s" "fftSize analyser = 256"
  shows "wellTuned (tick analyser s)"
proof -
  let ?data = "getByteFrequencyData analyser s"
  from tick_level [OF assms(2), of s] have data: "?data \<noteq> []"
    and level: "micLevel (tick analyser s) = Num (Math_round (arithmeticMean ?data))" by auto
  from arithmeticMean_bounds [OF data]
  have "0 \<le> Math_round (arithmeticMean ?data)" "Math_round (arithmeticMean ?data) \<le> 255"
    by (simp_all add: Math_round_bounds)
  with level have "case micLevel (tick analyser s) of Num m \<Rightarrow> 0 \<le> m \<and> m \<le> 255 | NaN \<Rightarrow> False"
    by simp
  moreover from assms have "list_all (\<lambda>cb. fftSize (snd cb) = 256) (frameCallbacks (tick analyser s))"
    by (simp add: tick_eq wellTuned_def)
  moreover from assms(1)
  have "case analyserRef (tick analyser s) of Some a \<Rightarrow> fftSize a = 256 | None \<Rightarrow> True"
    by (simp add: tick_eq wellTuned_def)
  ultimately show ?thesis by (simp add: wellTuned_def)
qed

lemma wellTuned_cancelPendingFrame: "wellTuned s \<Longrightarrow> wellTuned (cancelPendingFrame s)"
  by (cases "animationFrameRef s")
     (auto simp: wellTuned_def cancelPendingFrame_eq list_all_iff)

lemma wellTuned_observeMicLevel: "wellTuned s \<Longrightarrow> wellTuned (observeMicLevel s)"
proof (cases "analyserRef s")
  case None
  assume "wellTuned s"
  with None show ?thesis by (simp add: observeMicLevel_def)
next
  case (Some analyser)
  assume inv: "wellTuned s"
  with Some have "fftSize analyser = 256" by (simp add: wellTuned_def)
  with wellTuned_cancelPendingFrame [OF inv] Some show ?thesis
    by (simp add: observeMicLevel_def wellTuned_tick)
qed

lemma wellTuned_destroyCall: "wellTuned s \<Longrightarrow> wellTuned (destroyCall s)"
  by (cases "animationFrameRef s")
     (auto simp: wellTuned_def destroyCall_eq list_all_iff)

lemma wellTuned_closeCurrentCall: "wellTuned s \<Longrightarrow> wellTuned (closeCurrentCall s)"
  by (simp add: closeCurrentCall_eq wellTuned_updates wellTuned_destroyCall)

lemma wellTuned_registerCallHandlers: "wellTuned s \<Longrightarrow> wellTuned (registerCallHandlers call s)"
  by (simp add: registerCallHandlers_eq wellTuned_updates wellTuned_closeCurrentCall)

lemma wellTuned_answer: "wellTuned (answer call stream s) = wellTuned s"
  by (rule wellTuned_cong) (simp_all add: answer_fields)

lemma wellTuned_settled: "wellTuned s \<Longrightarrow> wellTuned (snd (ensureLocalStream_settled gum s))"
proof -
  assume inv: "wellTuned s"
  have stored: "wellTuned (stored stream s)" for stream
    using inv by (simp add: wellTuned_def stored_fields)
  have analysed: "wellTuned (analysed stream s)" for stream
    using inv analysed_fields(13) [of stream s]
    by (auto simp: wellTuned_def analysed_fields(1-12))
  show ?thesis
    by (cases gum)
       (simp_all add: ensureLocalStream_settled_eq wellTuned_updateStatus inv stored analysed)
qed

lemma wellTuned_suspend: "wellTuned (suspend k s) = wellTuned s"
  by (rule wellTuned_cong) (simp_all add: suspend_def emit_def)

lemma wellTuned_placeCall_continue: "wellTuned s \<Longrightarrow> wellTuned (placeCall_continue rid r s)"
  by (cases r; cases "peerRef (observeMicLevel s)")
     (simp_all add: placeCall_continue_def Let_def wellTuned_updateStatus wellTuned_emit
        wellTuned_registerCallHandlers wellTuned_observeMicLevel updateStatus_fields
        wellTuned_updates)

lemma wellTuned_onPeerCall_continue: "wellTuned s \<Longrightarrow> wellTuned (onPeerCall_continue c r s)"
  by (cases r)
     (simp_all add: onPeerCall_continue_def wellTuned_updateStatus wellTuned_answer
        wellTuned_registerCallHandlers wellTuned_observeMicLevel)

lemma wellTuned_onCallStream: "wellTuned (onCallStream call remoteStream s) = wellTuned s"
  by (cases "remoteAudioRef s")
     (simp_all add: onCallStream_def wellTuned_updateStatus wellTuned_updates)

lemma wellTuned_frameFires: "wellTuned s \<Longrightarrow> wellTuned (frameFires handle s)"
proof (cases "map_of (frameCallbacks s) handle")
  case None
  assume "wellTuned s"
  with None show ?thesis by (simp add: frameFires_def)
next
  case (Some analyser)
  assume inv: "wellTuned s"
  let ?t = "s\<lparr>frameCallbacks := filter (\<lambda>cb. fst cb \<noteq> handle) (frameCallbacks s)\<rparr>"
  from Some have "(handle, analyser) \<in> set (frameCallbacks s)" by (rule map_of_SomeD)
  with inv have "fftSize analyser = 256" by (auto simp: wellTuned_def list_all_iff)
  moreover from inv have "wellTuned ?t" by (auto simp: wellTuned_def list_all_iff)
  ultimately show ?thesis using Some by (simp add: frameFires_def wellTuned_tick)
qed

lemma wellTuned_step: "wellTuned s \<Longrightarrow> wellTuned (step ev s)"
proof (cases ev)
  case (CallStream h remoteStream)
  assume "wellTuned s"
  then have "wellTuned (fold (\<lambda>call. onCallStream call remoteStream) (listenersOf h s) s)"
    by (rule fold_preserves [rotated]) (simp add: wellTuned_onCallStream)
  with CallStream show ?thesis by simp
next
  case (CallClose h)
  assume "wellTuned s"
  then have "wellTuned (s\<lparr>openCalls := openCalls s - {h}\<rparr>)"
    by (simp add: wellTuned_updates)
  then have "wellTuned (fold (\<lambda>call. onCallClose) (listenersOf h s)
                          (s\<lparr>openCalls := openCalls s - {h}\<rparr>))"
    by (rule fold_preserves [rotated])
       (simp add: onCallClose_def wellTuned_updateStatus wellTuned_destroyCall)
  with CallClose show ?thesis by simp
next
  case (CallError h error)
  assume "wellTuned s"
  then have "wellTuned (fold (\<lambda>call. onCallError error) (listenersOf h s) s)"
    by (rule fold_preserves [rotated])
       (simp add: onCallError_def wellTuned_updateStatus wellTuned_destroyCall)
  with CallError show ?thesis by simp
next
  case ClickCall
  assume "wellTuned s"
  with ClickCall show ?thesis
    by (cases "localStreamRef s")
       (simp_all add: placeCall_begin_def wellTuned_updateStatus wellTuned_suspend
          wellTuned_placeCall_continue)
next
  case (PeerCall incomingCall)
  assume "wellTuned s"
  with PeerCall show ?thesis
    by (cases "localStreamRef s")
       (simp_all add: onPeerCall_begin_def Let_def updateStatus_fields wellTuned_updateStatus
          wellTuned_suspend wellTuned_onPeerCall_continue)
next
  case (MediaSettled k gum)
  assume inv: "wellTuned s"
  let ?t = "s\<lparr>awaiting := awaiting s - {#k#}\<rparr>"
  from inv have "wellTuned ?t" by (simp add: wellTuned_updates)
  then have "wellTuned (snd (ensureLocalStream_settled gum ?t))" by (rule wellTuned_settled)
  with MediaSettled inv show ?thesis
    by (cases k)
       (simp_all add: resume_def case_prod_beta wellTuned_placeCall_continue
          wellTuned_onPeerCall_continue)
next
  case ClickEnd
  assume "wellTuned s"
  then have "wellTuned ((closeCurrentCall s)\<lparr>callRef := None\<rparr>)"
    by (simp add: wellTuned_closeCurrentCall wellTuned_updates)
  with ClickEnd show ?thesis
    by (simp add: endCall_def wellTuned_updateStatus wellTuned_destroyCall)
next
  case (AnimationFrame handle)
  assume "wellTuned s"
  with AnimationFrame show ?thesis by (simp add: wellTuned_frameFires)
next
  case Unmount
  let ?u = "s\<lparr>remoteAudioRef := None, localAudioRef := None, isMounted := False\<rparr>"
  assume "wellTuned s"
  then have "wellTuned ?u" by (simp add: wellTuned_updates)
  then have "wellTuned (destroyCall ?u)" by (rule wellTuned_destroyCall)
  with Unmount show ?thesis
    by (cases "peerRef (destroyCall ?u)")
       (simp_all add: cleanup_def Let_def wellTuned_emit wellTuned_updates)
next
  case (PeerOpen ident)
  assume "wellTuned s"
  with PeerOpen show ?thesis
    by (simp add: onPeerOpen_def wellTuned_updateStatus wellTuned_updates)
next
  case PeerDisconnected
  assume "wellTuned s"
  with PeerDisconnected show ?thesis
    by (simp add: onPeerDisconnected_def wellTuned_updateStatus wellTuned_emit)
next
  case (PeerError error)
  assume "wellTuned s"
  with PeerError show ?thesis by (simp add: onPeerError_def wellTuned_updateStatus)
qed (simp_all add: wellTuned_updates)

lemma wellTuned_run: "wellTuned s \<Longrightarrow> wellTuned (run evs s)"
  unfolding run_def by (induction evs arbitrary: s) (simp_all add: wellTuned_step)

lemma wellTuned_init: "wellTuned (init ctor)"
  by (simp add: wellTuned_def init_def)

lemma wellTuned_level: "wellTuned s \<Longrightarrow> \<exists>m. micLevel s = Num m \<and> 0 \<le> m \<and> m \<le> 255"
  by (cases "micLevel s") (simp_all add: wellTuned_def)

lemma Math_round_of_nat: "Math_round (of_nat k) = int k"
  by (simp add: Math_round_def floor_eq_iff)

lemma loud_fields:
  "micLevel loud = Num 255" "frequencyData loud = replicate 128 255"
  by (simp_all add: loud_def run_def frameFires_def dialled_eq tick_eq getByteFrequencyData_def
        frequencyBinCount_def volume_replicate)

text \<open>
  C9, as the code has it. A published sample is the arithmetic mean of the magnitudes of
  all bins of one read, rounded to the nearest integer (a half rounds up): it differs
  from the mean by at most a half. Each \<open>tick\<close> of an analyser of the page reads 128
  bins and publishes that value. The samples are integers from 0 to 255: in every
  reachable state the mic level is a number in that range, never NaN.
\<close>

theorem mic_level_rounded_mean:
  "(data \<noteq> [] \<longrightarrow>
      volume data = Num (Math_round (arithmeticMean data))
      \<and> \<bar>of_int (Math_round (arithmeticMean data)) - arithmeticMean data\<bar> \<le> 1 / 2
      \<and> 0 \<le> Math_round (arithmeticMean data) \<and> Math_round (arithmeticMean data) \<le> 255)
   \<and> (fftSize analyser = 256 \<longrightarrow>
        length (getByteFrequencyData analyser s) = 128
        \<and> micLevel (tick analyser s)
            = Num (Math_round (arithmeticMean (getByteFrequencyData analyser s))))
   \<and> (wellTuned s \<longrightarrow> wellTuned (step ev s))
   \<and> wellTuned (run evs (init ctor))
   \<and> (\<exists>m. micLevel (run evs (init ctor)) = Num m \<and> 0 \<le> m \<and> m \<le> 255)"
proof -
  have mean: "volume data = Num (Math_round (arithmeticMean data))
      \<and> \<bar>of_int (Math_round (arithmeticMean data)) - arithmeticMean data\<bar> \<le> 1 / 2
      \<and> 0 \<le> Math_round (arithmeticMean data) \<and> Math_round (arithmeticMean data) \<le> 255"
    if "data \<noteq> []"
    using volume_mean [OF that] Math_round_nearest [of "arithmeticMean data"]
      arithmeticMean_bounds [OF that] Math_round_bounds [of "arithmeticMean data"]
    by simp
  have reach: "wellTuned (run evs (init ctor))"
    by (rule wellTuned_run) (rule wellTuned_init)
  from mean tick_level [of analyser s] wellTuned_step [of s ev] reach wellTuned_level [OF reach]
  show ?thesis by blast
qed

text \<open>The mean of the bins 1 and 2 is 3/2 and is published as 2; a full spectrum is published as 255.\<close>

theorem mic_level_rounded_mean_witness:
  "arithmeticMean [1, 2] = 3 / 2 \<and> volume [1, 2] = Num 2
   \<and> fftSize \<lparr>node_id = 1, fftSize = 256\<rparr> = 256
   \<and> getByteFrequencyData \<lparr>node_id = 1, fftSize = 256\<rparr> loud = replicate 128 255
   \<and> micLevel (tick \<lparr>node_id = 1, fftSize = 256\<rparr> loud) = Num 255
   \<and> wellTuned dialled \<and> wellTuned (step (AnimationFrame 1) dialled)"
proof -
  note at_loud = mic_level_rounded_mean
    [of "[1, 2]" "\<lparr>node_id = 1, fftSize = 256\<rparr>" loud]
  note at_dialled = mic_level_rounded_mean
    [of "[1, 2]" "\<lparr>node_id = 1, fftSize = 256\<rparr>" dialled "AnimationFrame 1"
        "[PeerLoaded (js ''agentic-ab12-cd34''), InputRemoteId bob, ClickCall,
          MediaSettled (PlaceCallK bob) (Inr mic)]" True]
  have two: "arithmeticMean [1, 2] = 3 / 2" "Math_round (3 / 2) = 2"
    by (simp_all add: arithmeticMean_def Math_round_def)
  have full: "getByteFrequencyData \<lparr>node_id = 1, fftSize = 256\<rparr> loud = replicate 128 255"
    "arithmeticMean (replicate 128 255) = 255" "Math_round 255 = 255"
    using Math_round_of_nat [of 255]
    by (simp_all add: getByteFrequencyData_def frequencyBinCount_def loud_fields
          arithmeticMean_def sum_list_replicate)
  from at_dialled have inv: "wellTuned dialled" by (simp add: dialled_def)
  from at_loud two full
  have "volume [1, 2] = Num 2
     \<and> micLevel (tick \<lparr>node_id = 1, fftSize = 256\<rparr> loud) = Num 255"
    by simp
  moreover from at_dialled inv have "wellTuned (step (AnimationFrame 1) dialled)" by blast
  ultimately show ?thesis using two full inv by simp
qed

text \<open>
  C9 as stated does not hold for the range: with every bin at 255 the published sample
  is 255, far above 100.
\<close>

theorem mic_level_exceeds_100:
  "frequencyData loud = replicate 128 255 \<and> micLevel loud = Num 255 \<and> \<not> (255 \<le> (100 :: int))"
  by (simp add: loud_fields)

end
